theory Spec2Isabelle
  imports Complex_Main "HOL-Library.Word"
begin

unbundle bit_operations_syntax

section \<open>JavaScript values\<close>

text \<open>
  The value that \<^verbatim>\<open>JSON.parse\<close> returns. Numbers are modelled as rationals
  (every decimal literal of a JSON text is one); \<^verbatim>\<open>undefined\<close> is \<open>None\<close> at the
  places where a property is read.
\<close>

datatype json =
    JNull
  | JBool bool
  | JNum rat
  | JStr string
  | JArr "json list"
  | JObj "(string \<times> json) list"

text \<open>
  Reading a property \<^verbatim>\<open>x.k\<close> of a value that is neither \<^verbatim>\<open>null\<close> nor
  \<^verbatim>\<open>undefined\<close>. \<^verbatim>\<open>JSON.parse\<close> keeps the last of several equal keys. None of the
  keys read by this program is a built-in property of a string, a number, a boolean or
  an array, so only an object yields a value.
\<close>

fun js_get :: "json \<Rightarrow> string \<Rightarrow> json option" where
  "js_get (JObj kvs) k = map_of (rev kvs) k"
| "js_get _ k = None"

text \<open>Optional chaining \<^verbatim>\<open>x?.k\<close>: as above (\<^verbatim>\<open>null?.k\<close> is \<^verbatim>\<open>undefined\<close>).\<close>

definition js_opt_get :: "json \<Rightarrow> string \<Rightarrow> json option" where
  "js_opt_get x k = js_get x k"

text \<open>Truthiness, as tested by \<^verbatim>\<open>!x\<close>, \<^verbatim>\<open>&&\<close> and \<^verbatim>\<open>if (x)\<close>.\<close>

fun truthy :: "json option \<Rightarrow> bool" where
  "truthy None = False"
| "truthy (Some JNull) = False"
| "truthy (Some (JBool b)) = b"
| "truthy (Some (JNum n)) = (n \<noteq> 0)"
| "truthy (Some (JStr s)) = (s \<noteq> [])"
| "truthy (Some (JArr xs)) = True"
| "truthy (Some (JObj kvs)) = True"

text \<open>Nullish coalescing \<^verbatim>\<open>x ?? y\<close>.\<close>

fun nullish :: "json option \<Rightarrow> bool" where
  "nullish None = True"
| "nullish (Some JNull) = True"
| "nullish (Some _) = False"

definition coalesce :: "json option \<Rightarrow> json option \<Rightarrow> json option" where
  "coalesce x y = (if nullish x then y else x)"

text \<open>\<^verbatim>\<open>typeof x === 'number'\<close> and \<^verbatim>\<open>typeof x === 'string'\<close>.\<close>

fun is_number :: "json option \<Rightarrow> bool" where
  "is_number (Some (JNum n)) = True"
| "is_number _ = False"

fun is_string :: "json option \<Rightarrow> bool" where
  "is_string (Some (JStr s)) = True"
| "is_string _ = False"

text \<open>\<^verbatim>\<open>s.startsWith(p)\<close> and \<^verbatim>\<open>s.replace(p, r)\<close> for a string pattern \<open>p\<close>
  (the first occurrence only).\<close>

definition startsWith :: "string \<Rightarrow> string \<Rightarrow> bool" where
  "startsWith s p = (take (length p) s = p)"

fun replace_first :: "string \<Rightarrow> string \<Rightarrow> string \<Rightarrow> string" where
  "replace_first pat rep [] = (if pat = [] then rep else [])"
| "replace_first pat rep (x # xs) =
     (if startsWith (x # xs) pat then rep @ drop (length pat) (x # xs)
      else x # replace_first pat rep xs)"

section \<open>Library functions the program calls\<close>

text \<open>
  The program calls into \<^verbatim>\<open>jose\<close>, \<^verbatim>\<open>crypto\<close>, \<^verbatim>\<open>Buffer\<close> and the JavaScript
  built-ins. They are not part of the repository; the model takes them as a record of
  functions. A call that can throw returns an option.
\<close>

record js_lib =
  base64url_encode :: "string \<Rightarrow> string"
  base64url_decode :: "string \<Rightarrow> string option"
  text_decode :: "string \<Rightarrow> string"
  json_stringify :: "json \<Rightarrow> string"
  json_parse :: "string \<Rightarrow> json option"
  sha256_hex :: "string \<Rightarrow> string"
  number_to_string :: "rat \<Rightarrow> string"
  string_to_number :: "string \<Rightarrow> rat option"
  buffer_base64_utf8 :: "string \<Rightarrow> string"
  decodeURIComponent :: "string \<Rightarrow> string option"
  toISOString :: "int \<Rightarrow> string"

section \<open>lib/qr/qrGenerator.ts\<close>

text \<open>The interface \<^verbatim>\<open>QRPayload\<close>.\<close>

record QRPayload =
  qr_v :: rat
  qr_e :: string
  qr_t :: rat
  qr_a :: string
  qr_ts :: rat
  qr_c :: string

text \<open>The object literal \<^verbatim>\<open>{v, e, t, a, ts, c}\<close> with its keys in insertion order.\<close>

definition payload_json :: "QRPayload \<Rightarrow> json" where
  "payload_json p =
     JObj [(''v'', JNum (qr_v p)), (''e'', JStr (qr_e p)), (''t'', JNum (qr_t p)),
           (''a'', JStr (qr_a p)), (''ts'', JNum (qr_ts p)), (''c'', JStr (qr_c p))]"

text \<open>Every \<^verbatim>\<open>throw new Error(...)\<close> of the module, and the exceptions of the library
  calls inside \<^verbatim>\<open>parseQRCode\<close> (they are instances of \<^verbatim>\<open>Error\<close> and are rethrown
  unchanged).\<close>

datatype qr_error =
    InvalidQRFormat
  | DecodeException
  | TypeErrorOnNull
  | MalformedMissingFields
  | UnsupportedQRVersion
  | InvalidTicketNumber
  | InvalidTimestamp
  | QRExpired
  | InvalidChecksum
  | AssetPubkeyMismatch

text \<open>\<^verbatim>\<open>Math.floor(Date.now() / 1000)\<close>; the clock is an argument, in milliseconds.\<close>

definition unix_seconds :: "int \<Rightarrow> rat" where
  "unix_seconds now_ms = of_int (now_ms div 1000)"

definition calculateChecksum :: "js_lib \<Rightarrow> string \<Rightarrow> rat \<Rightarrow> string \<Rightarrow> rat \<Rightarrow> string" where
  "calculateChecksum L eventId ticketNumber assetPubkey timestamp =
     (let checksumData = eventId @ '':'' @ number_to_string L ticketNumber @ '':'' @
                         assetPubkey @ '':'' @ number_to_string L timestamp
      in take 4 (sha256_hex L checksumData))"

definition finalPayload :: "js_lib \<Rightarrow> int \<Rightarrow> string \<Rightarrow> rat \<Rightarrow> string \<Rightarrow> QRPayload" where
  "finalPayload L now_ms eventId ticketNumber assetPubkey =
     (let timestamp = unix_seconds now_ms;
          checksumData = eventId @ '':'' @ number_to_string L ticketNumber @ '':'' @
                         assetPubkey @ '':'' @ number_to_string L timestamp;
          checksum = take 4 (sha256_hex L checksumData)
      in \<lparr>qr_v = 1, qr_e = eventId, qr_t = ticketNumber, qr_a = take 8 assetPubkey,
          qr_ts = timestamp, qr_c = checksum\<rparr>)"

definition generateTicketQR :: "js_lib \<Rightarrow> int \<Rightarrow> string \<Rightarrow> rat \<Rightarrow> string \<Rightarrow> string" where
  "generateTicketQR L now_ms eventId ticketNumber assetPubkey =
     (let encoded = base64url_encode L
                      (json_stringify L
                         (payload_json (finalPayload L now_ms eventId ticketNumber assetPubkey)))
      in ''parchi:'' @ encoded)"

text \<open>\<^verbatim>\<open>x <= 0\<close> for a value already known to be a number.\<close>

fun num_le_zero :: "json option \<Rightarrow> bool" where
  "num_le_zero (Some (JNum n)) = (n \<le> 0)"
| "num_le_zero _ = False"

definition parseQRCode :: "js_lib \<Rightarrow> string \<Rightarrow> qr_error + json" where
  "parseQRCode L qrString =
     (if \<not> startsWith qrString ''parchi:'' then Inl InvalidQRFormat
      else
        let encoded = replace_first ''parchi:'' [] qrString in
        case base64url_decode L encoded of
          None \<Rightarrow> Inl DecodeException
        | Some decodedBytes \<Rightarrow>
            (case json_parse L (text_decode L decodedBytes) of
               None \<Rightarrow> Inl DecodeException
             | Some decoded \<Rightarrow>
                 if decoded = JNull then Inl TypeErrorOnNull
                 else if \<not> truthy (js_get decoded ''v'') \<or> \<not> truthy (js_get decoded ''e'') \<or>
                         \<not> truthy (js_get decoded ''t'') \<or> \<not> truthy (js_get decoded ''a'') \<or>
                         \<not> truthy (js_get decoded ''c'') \<or> \<not> truthy (js_get decoded ''ts'')
                   then Inl MalformedMissingFields
                 else if js_get decoded ''v'' \<noteq> Some (JNum 1) then Inl UnsupportedQRVersion
                 else if \<not> is_number (js_get decoded ''t'') \<or> num_le_zero (js_get decoded ''t'')
                   then Inl InvalidTicketNumber
                 else if \<not> is_number (js_get decoded ''ts'') \<or> num_le_zero (js_get decoded ''ts'')
                   then Inl InvalidTimestamp
                 else Inr decoded))"

text \<open>One year, \<^verbatim>\<open>365 * 24 * 60 * 60\<close> seconds.\<close>

definition maxAge :: rat where
  "maxAge = 365 * 24 * 60 * 60"

definition validateQRIntegrity :: "js_lib \<Rightarrow> int \<Rightarrow> QRPayload \<Rightarrow> string \<Rightarrow> qr_error + unit" where
  "validateQRIntegrity L now_ms qrData fullAssetPubkey =
     (let now = unix_seconds now_ms in
      if now - qr_ts qrData > maxAge then Inl QRExpired
      else
        let expectedChecksum =
              calculateChecksum L (qr_e qrData) (qr_t qrData) fullAssetPubkey (qr_ts qrData)
        in if qr_c qrData \<noteq> expectedChecksum then Inl InvalidChecksum
           else if \<not> startsWith fullAssetPubkey (qr_a qrData) then Inl AssetPubkeyMismatch
           else Inr ())"

section \<open>The relational store\<close>

text \<open>
  The tables of the Prisma schema. A table is the list of its rows in the order the
  database scans them, which is the order \<^verbatim>\<open>findFirst\<close> searches. Timestamps are
  milliseconds since the epoch; a nullable column is an option.
\<close>

datatype TicketStatus = ACTIVE | USED | CANCELLED | REFUNDED

datatype VerificationStatus = PENDING | VERIFIED | REJECTED

record Ticket =
  ticketId :: string
  eventId :: string
  holderPubkey :: string
  mintPubkey :: "string option"
  purchasePrice :: int
  seatNumber :: "string option"
  tier :: "string option"
  status :: TicketStatus
  purchasedAt :: int
  usedAt :: "int option"
  metadataUri :: "string option"

record GateVerification =
  verificationId :: string
  gv_eventId :: string
  gv_ticketId :: string
  verifierPubkey :: string
  gv_status :: VerificationStatus
  verifiedAt :: "int option"
  location :: "string option"
  gv_notes :: "string option"
  createdAt :: int
  meta :: json

record db =
  events :: "string list"
  tickets :: "Ticket list"
  gateVerifications :: "GateVerification list"

text \<open>\<^verbatim>\<open>prisma.ticket.findUnique({ where: { ticketId } })\<close>.\<close>

definition ticket_findUnique :: "db \<Rightarrow> string \<Rightarrow> Ticket option" where
  "ticket_findUnique d tid = find (\<lambda>r. ticketId r = tid) (tickets d)"

text \<open>\<^verbatim>\<open>prisma.ticket.findFirst({ where })\<close>.\<close>

definition ticket_findFirst :: "db \<Rightarrow> (Ticket \<Rightarrow> bool) \<Rightarrow> Ticket option" where
  "ticket_findFirst d cond = find cond (tickets d)"

text \<open>
  \<^verbatim>\<open>prisma.ticket.updateMany({ where, data })\<close>: one \<^verbatim>\<open>UPDATE ... WHERE\<close>
  statement. It returns the number of rows it changed.
\<close>

definition ticket_updateMany :: "db \<Rightarrow> (Ticket \<Rightarrow> bool) \<Rightarrow> (Ticket \<Rightarrow> Ticket) \<Rightarrow> nat \<times> db" where
  "ticket_updateMany d cond upd =
     (length (filter cond (tickets d)),
      d\<lparr>tickets := map (\<lambda>r. if cond r then upd r else r) (tickets d)\<rparr>)"

definition gv_findUnique :: "db \<Rightarrow> string \<Rightarrow> GateVerification option" where
  "gv_findUnique d vid = find (\<lambda>g. verificationId g = vid) (gateVerifications d)"

text \<open>\<^verbatim>\<open>prisma.gateVerification.update({ where: { verificationId }, data })\<close> on a row
  that exists.\<close>

definition gv_update :: "db \<Rightarrow> string \<Rightarrow> (GateVerification \<Rightarrow> GateVerification) \<Rightarrow> db" where
  "gv_update d vid upd =
     d\<lparr>gateVerifications :=
         map (\<lambda>g. if verificationId g = vid then upd g else g) (gateVerifications d)\<rparr>"

text \<open>
  \<^verbatim>\<open>prisma.gateVerification.create({ data })\<close>. The database refuses the row (the
  call throws) when its primary key exists already or one of its two foreign keys
  references no row.
\<close>

definition gv_create :: "db \<Rightarrow> GateVerification \<Rightarrow> db option" where
  "gv_create d g =
     (if verificationId g \<in> set (map verificationId (gateVerifications d)) \<or>
         gv_eventId g \<notin> set (events d) \<or>
         gv_ticketId g \<notin> set (map ticketId (tickets d))
      then None
      else Some (d\<lparr>gateVerifications := gateVerifications d @ [g]\<rparr>))"

text \<open>Object spread \<^verbatim>\<open>{ ...x }\<close> of a JSON value stored in a row (the entries of an
  object; nothing for \<^verbatim>\<open>null\<close>), and a property written after it.\<close>

fun spread :: "json \<Rightarrow> (string \<times> json) list" where
  "spread (JObj kvs) = kvs"
| "spread _ = []"

fun obj_set :: "(string \<times> json) list \<Rightarrow> string \<Rightarrow> json \<Rightarrow> (string \<times> json) list" where
  "obj_set [] k x = [(k, x)]"
| "obj_set ((k', y) # kvs) k x = (if k' = k then (k, x) # kvs else (k', y) # obj_set kvs k x)"

definition opt_json :: "string option \<Rightarrow> json" where
  "opt_json s = (case s of None \<Rightarrow> JNull | Some x \<Rightarrow> JStr x)"

text \<open>Truthiness of an optional string (\<^verbatim>\<open>undefined\<close> and \<^verbatim>\<open>''\<close> are falsy).\<close>

definition str_truthy :: "string option \<Rightarrow> bool" where
  "str_truthy s = (case s of None \<Rightarrow> False | Some x \<Rightarrow> x \<noteq> [])"

section \<open>app/api/gate/verify/route.ts\<close>

text \<open>The request body as the handler types it. What the handler reads beside the
  request: the clock and the primary key the database generates for a new row.\<close>

record verify_body =
  vb_ticketId :: "string option"
  vb_verificationId :: "string option"
  vb_staffId :: "string option"
  vb_gateId :: "string option"

record handler_env =
  clock_ms :: int
  new_id :: string

text \<open>The errors thrown inside the transaction; \<open>prisma_error\<close> is any exception of
  the client itself.\<close>

datatype tx_error =
    verification_record_not_found
  | could_not_resolve_ticket_id
  | already_redeemed_or_invalid
  | verification_ticket_mismatch
  | prisma_error

datatype created_or_updated = created | updated

record verify_result =
  vr_ticketId :: string
  vr_verificationId :: string
  createdOrUpdated :: created_or_updated

text \<open>The \<^verbatim>\<open>data\<close> of the update of an existing row (lines 89 to 100): a field left
  \<^verbatim>\<open>undefined\<close> keeps the value of the row.\<close>

definition verified_data :: "js_lib \<Rightarrow> handler_env \<Rightarrow> verify_body \<Rightarrow> GateVerification \<Rightarrow> GateVerification \<Rightarrow> GateVerification" where
  "verified_data L env body existing g =
     g\<lparr>gv_status := VERIFIED,
       verifiedAt := Some (clock_ms env),
       verifierPubkey := (case vb_staffId body of Some s \<Rightarrow> s | None \<Rightarrow> verifierPubkey existing),
       location := (case vb_gateId body of
                      Some s \<Rightarrow> Some s
                    | None \<Rightarrow> (case location existing of Some l \<Rightarrow> Some l | None \<Rightarrow> location g)),
       meta := JObj (obj_set (obj_set (obj_set (spread (meta existing))
                 ''serverVerifiedAt'' (JStr (toISOString L (clock_ms env))))
                 ''gateId'' (opt_json (vb_gateId body)))
                 ''staffId'' (opt_json (vb_staffId body)))\<rparr>"

text \<open>The \<^verbatim>\<open>data\<close> of a new row (lines 107 to 119).\<close>

definition verified_row :: "js_lib \<Rightarrow> handler_env \<Rightarrow> verify_body \<Rightarrow> string \<Rightarrow> string \<Rightarrow> GateVerification" where
  "verified_row L env body ev tid =
     \<lparr>verificationId = new_id env,
      gv_eventId = ev,
      gv_ticketId = tid,
      verifierPubkey = (case vb_staffId body of Some s \<Rightarrow> s | None \<Rightarrow> ''unknown-staff''),
      gv_status = VERIFIED,
      verifiedAt = Some (clock_ms env),
      location = vb_gateId body,
      gv_notes = None,
      createdAt = clock_ms env,
      meta = JObj [(''serverVerifiedAt'', JStr (toISOString L (clock_ms env))),
                   (''gateId'', opt_json (vb_gateId body)),
                   (''staffId'', opt_json (vb_staffId body))]\<rparr>"

text \<open>
  The callback of \<^verbatim>\<open>prisma.$transaction\<close>. It returns the store as the callback
  left it; an exception is a left value and carries no store.
\<close>

definition verify_tx :: "js_lib \<Rightarrow> handler_env \<Rightarrow> db \<Rightarrow> verify_body \<Rightarrow> tx_error + (verify_result \<times> db)" where
  "verify_tx L env d body =
     (case (if \<not> str_truthy (vb_ticketId body) \<and> str_truthy (vb_verificationId body)
            then (case gv_findUnique d (the (vb_verificationId body)) of
                    None \<Rightarrow> Inl verification_record_not_found
                  | Some existing \<Rightarrow> Inr (Some (gv_ticketId existing)))
            else Inr (vb_ticketId body)) of
        Inl err \<Rightarrow> Inl err
      | Inr resolved \<Rightarrow>
          if \<not> str_truthy resolved then Inl could_not_resolve_ticket_id
          else
            let resolvedTicketId = the resolved;
                (count, d1) = ticket_updateMany d
                   (\<lambda>r. ticketId r = resolvedTicketId \<and> status r = ACTIVE)
                   (\<lambda>r. r\<lparr>status := USED, usedAt := Some (clock_ms env)\<rparr>)
            in
            if count = 0 then Inl already_redeemed_or_invalid
            else
              let ticketRow = ticket_findUnique d1 resolvedTicketId;
                  eventId' = map_option eventId ticketRow
              in
              if str_truthy (vb_verificationId body) then
                (case gv_findUnique d1 (the (vb_verificationId body)) of
                   None \<Rightarrow> Inl verification_record_not_found
                 | Some existing \<Rightarrow>
                     if gv_ticketId existing \<noteq> resolvedTicketId then Inl verification_ticket_mismatch
                     else
                       let d2 = gv_update d1 (the (vb_verificationId body))
                                  (verified_data L env body existing)
                       in Inr (\<lparr>vr_ticketId = resolvedTicketId,
                                 vr_verificationId = the (vb_verificationId body),
                                 createdOrUpdated = updated\<rparr>, d2))
              else
                (case eventId' of
                   None \<Rightarrow> Inl prisma_error
                 | Some ev \<Rightarrow>
                     (case gv_create d1 (verified_row L env body ev resolvedTicketId) of
                        None \<Rightarrow> Inl prisma_error
                      | Some d2 \<Rightarrow>
                          Inr (\<lparr>vr_ticketId = resolvedTicketId,
                                 vr_verificationId = new_id env,
                                 createdOrUpdated = created\<rparr>, d2))))"

text \<open>The responses of the handler: the success body with the ticket id and the
  verification id, and one constructor per error string (with its HTTP status).\<close>

datatype verify_response =
    verified_and_used string string
  | error_invalid_json
  | error_missing_ticket_or_verification_id
  | error_already_redeemed_or_invalid
  | error_verification_record_not_found
  | error_verification_ticket_mismatch
  | error_could_not_resolve_ticket_id
  | error_server_error

text \<open>
  The handler. \<^verbatim>\<open>prisma.$transaction\<close> commits what the callback wrote when the
  callback returns and rolls all of it back when the callback throws, so the store
  after a failed call is the store before it. The body is \<open>None\<close> when the request
  holds no JSON object.
\<close>

definition verify_POST :: "js_lib \<Rightarrow> handler_env \<Rightarrow> db \<Rightarrow> verify_body option \<Rightarrow> verify_response \<times> db" where
  "verify_POST L env d request =
     (case request of
        None \<Rightarrow> (error_invalid_json, d)
      | Some body \<Rightarrow>
          if \<not> str_truthy (vb_ticketId body) \<and> \<not> str_truthy (vb_verificationId body)
          then (error_missing_ticket_or_verification_id, d)
          else
            case verify_tx L env d body of
              Inr (result, d') \<Rightarrow>
                (verified_and_used (vr_ticketId result) (vr_verificationId result), d')
            | Inl already_redeemed_or_invalid \<Rightarrow> (error_already_redeemed_or_invalid, d)
            | Inl verification_record_not_found \<Rightarrow> (error_verification_record_not_found, d)
            | Inl verification_ticket_mismatch \<Rightarrow> (error_verification_ticket_mismatch, d)
            | Inl could_not_resolve_ticket_id \<Rightarrow> (error_could_not_resolve_ticket_id, d)
            | Inl prisma_error \<Rightarrow> (error_server_error, d))"

section \<open>app/api/tickets/by-qr/route.ts\<close>

datatype by_qr_response =
    by_qr_success Ticket
  | by_qr_missing_required_fields
  | by_qr_ticket_not_found
  | by_qr_internal_server_error

text \<open>
  The handler only reads the store. The body is whatever JSON the request holds
  (\<open>None\<close> when it holds none: \<^verbatim>\<open>request.json()\<close> throws). Destructuring
  \<^verbatim>\<open>null\<close> throws, and so does the query when the event id or the prefix is not a
  string; every exception ends in the 500 response.
\<close>

definition by_qr_POST :: "db \<Rightarrow> json option \<Rightarrow> by_qr_response" where
  "by_qr_POST d request =
     (case request of
        None \<Rightarrow> by_qr_internal_server_error
      | Some JNull \<Rightarrow> by_qr_internal_server_error
      | Some body \<Rightarrow>
          let event_id = js_get body ''event_id'';
              ticket_number = js_get body ''ticket_number'';
              asset_prefix = js_get body ''asset_prefix''
          in
          if \<not> truthy event_id \<or> \<not> truthy ticket_number \<or> \<not> truthy asset_prefix
          then by_qr_missing_required_fields
          else
            case (event_id, asset_prefix) of
              (Some (JStr ev), Some (JStr pre)) \<Rightarrow>
                (case ticket_findFirst d
                        (\<lambda>r. eventId r = ev \<and>
                             (case mintPubkey r of None \<Rightarrow> False | Some m \<Rightarrow> startsWith m pre)) of
                   None \<Rightarrow> by_qr_ticket_not_found
                 | Some ticket \<Rightarrow> by_qr_success ticket)
            | _ \<Rightarrow> by_qr_internal_server_error)"

section \<open>app/api/gate/scan/route.ts\<close>

text \<open>\<^verbatim>\<open>s.trim()\<close> and \<^verbatim>\<open>s.toLowerCase()\<close> on ASCII text.\<close>

definition is_js_space :: "char \<Rightarrow> bool" where
  "is_js_space x = (x = CHR '' '' \<or> x = CHR 0x09 \<or> x = CHR 0x0A \<or> x = CHR 0x0B \<or>
                    x = CHR 0x0C \<or> x = CHR 0x0D)"

definition js_trim :: "string \<Rightarrow> string" where
  "js_trim s = rev (dropWhile is_js_space (rev (dropWhile is_js_space s)))"

definition lower_char :: "char \<Rightarrow> char" where
  "lower_char x =
     (if (65::int) \<le> of_char x \<and> (of_char x :: int) \<le> 90 then char_of (of_char x + (32::int))
      else x)"

definition toLowerCase :: "string \<Rightarrow> string" where
  "toLowerCase s = map lower_char s"

text \<open>\<^verbatim>\<open>xs.join(sep)\<close>, and the conversion of a value to a string that
  \<^verbatim>\<open>String(x)\<close> and a template literal perform.\<close>

fun join_with :: "string \<Rightarrow> string list \<Rightarrow> string" where
  "join_with sep [] = []"
| "join_with sep [x] = x"
| "join_with sep (x # y # ys) = x @ sep @ join_with sep (y # ys)"

fun js_String :: "js_lib \<Rightarrow> json \<Rightarrow> string" where
  "js_String L JNull = ''null''"
| "js_String L (JBool b) = (if b then ''true'' else ''false'')"
| "js_String L (JNum n) = number_to_string L n"
| "js_String L (JStr s) = s"
| "js_String L (JArr xs) =
     join_with '','' (map (\<lambda>x. if x = JNull then [] else js_String L x) xs)"
| "js_String L (JObj kvs) = ''[object Object]''"

text \<open>\<^verbatim>\<open>Number(x)\<close>; \<open>None\<close> is \<^verbatim>\<open>NaN\<close>.\<close>

definition js_Number :: "js_lib \<Rightarrow> json \<Rightarrow> rat option" where
  "js_Number L x =
     (case x of
        JNull \<Rightarrow> Some 0
      | JBool b \<Rightarrow> Some (if b then 1 else 0)
      | JNum n \<Rightarrow> Some n
      | JStr s \<Rightarrow> string_to_number L s
      | JArr xs \<Rightarrow> string_to_number L (js_String L (JArr xs))
      | JObj kvs \<Rightarrow> None)"

definition number_string :: "js_lib \<Rightarrow> rat option \<Rightarrow> string" where
  "number_string L n = (case n of None \<Rightarrow> ''NaN'' | Some r \<Rightarrow> number_to_string L r)"

text \<open>A value that is not \<^verbatim>\<open>undefined\<close> here (the result of \<^verbatim>\<open>x ?? null\<close>).\<close>

definition or_null :: "json option \<Rightarrow> json" where
  "or_null x = (case x of None \<Rightarrow> JNull | Some y \<Rightarrow> y)"

fun replace_all_char :: "char \<Rightarrow> char \<Rightarrow> string \<Rightarrow> string" where
  "replace_all_char a b [] = []"
| "replace_all_char a b (x # xs) = (if x = a then b else x) # replace_all_char a b xs"

text \<open>The loop \<^verbatim>\<open>while (b64.length % 4) b64 += '='\<close> adds at most three characters.\<close>

definition pad_to_four :: "string \<Rightarrow> string" where
  "pad_to_four b64 = b64 @ replicate ((4 - length b64 mod 4) mod 4) (CHR ''='')"

definition base64UrlToUtf8Node :: "js_lib \<Rightarrow> string \<Rightarrow> string" where
  "base64UrlToUtf8Node L input =
     (let b64 = replace_all_char (CHR ''_'') (CHR ''/'') (replace_all_char (CHR ''-'') (CHR ''+'') input)
      in buffer_base64_utf8 L (pad_to_four b64))"

definition calculateChecksumServer :: "js_lib \<Rightarrow> json \<Rightarrow> rat option \<Rightarrow> string \<Rightarrow> json \<Rightarrow> string" where
  "calculateChecksumServer L eventId' ticketNumber assetPubkey timestamp =
     (let checksumData = js_String L eventId' @ '':'' @ number_string L ticketNumber @ '':'' @
                         assetPubkey @ '':'' @ js_String L timestamp
      in take 4 (sha256_hex L checksumData))"

record scan_body =
  sb_qrString :: "string option"
  sb_staffId :: "string option"
  sb_gateId :: "string option"

datatype scan_response =
    scan_ok string json "string option" rat
  | scan_invalid_json
  | scan_missing_qrString
  | scan_invalid_qr_format
  | scan_qr_missing_fields
  | scan_unsupported_qr_version
  | scan_qr_expired
  | scan_ticket_not_found
  | scan_qr_tampered
  | scan_mint_mismatch string string
  | scan_ticket_not_active TicketStatus

text \<open>Lines 32 to 59 of the handler: from the scanned text to the parsed payload.\<close>

definition scan_payload :: "js_lib \<Rightarrow> string \<Rightarrow> json option" where
  "scan_payload L raw =
     (let decodedText =
            (if startsWith raw ''parchi:'' then base64UrlToUtf8Node L (drop (length ''parchi:'') raw)
             else (case decodeURIComponent L raw of Some txt \<Rightarrow> txt | None \<Rightarrow> raw))
      in json_parse L decodedText)"

text \<open>The fields the handler reads from the payload.\<close>

definition ticketIdFromQr :: "json \<Rightarrow> json" where
  "ticketIdFromQr qrPayload =
     or_null (coalesce (js_opt_get qrPayload ''t'') (js_opt_get qrPayload ''ticketId''))"

definition mintPubkeyRaw :: "json \<Rightarrow> json" where
  "mintPubkeyRaw qrPayload =
     or_null (coalesce (js_opt_get qrPayload ''m'')
               (coalesce (js_opt_get qrPayload ''mint'')
                 (coalesce (js_opt_get qrPayload ''mintPubkey'') (js_opt_get qrPayload ''a''))))"

definition eventIdFromQr :: "json \<Rightarrow> json" where
  "eventIdFromQr qrPayload =
     or_null (coalesce (js_opt_get qrPayload ''e'') (js_opt_get qrPayload ''eventId''))"

definition tsFromQr :: "json \<Rightarrow> json" where
  "tsFromQr qrPayload = or_null (js_opt_get qrPayload ''ts'')"

definition checksumFromQr :: "json \<Rightarrow> json" where
  "checksumFromQr qrPayload = or_null (js_opt_get qrPayload ''c'')"

definition versionFromQr :: "json \<Rightarrow> json" where
  "versionFromQr qrPayload = or_null (js_opt_get qrPayload ''v'')"

text \<open>Lines 84 to 104: the two lookups.\<close>

definition scan_find_ticket :: "db \<Rightarrow> json \<Rightarrow> Ticket option" where
  "scan_find_ticket d qrPayload =
     (let ticket1 =
            (case ticketIdFromQr qrPayload of
               JStr tid \<Rightarrow> if tid \<noteq> [] then ticket_findUnique d tid else None
             | _ \<Rightarrow> None)
      in
      case ticket1 of
        Some r \<Rightarrow> Some r
      | None \<Rightarrow>
          (case mintPubkeyRaw qrPayload of
             JStr raw \<Rightarrow>
               if raw = [] then None
               else
                 let mp = js_trim raw in
                 if length mp \<le> 16
                 then ticket_findFirst d
                        (\<lambda>r. case mintPubkey r of None \<Rightarrow> False | Some m \<Rightarrow> startsWith m mp)
                 else ticket_findFirst d (\<lambda>r. mintPubkey r = Some mp)
           | _ \<Rightarrow> None))"

text \<open>Lines 110 to 131: whether the checksum is examined, and whether it is wrong.\<close>

definition scan_checks_checksum :: "json \<Rightarrow> Ticket \<Rightarrow> bool" where
  "scan_checks_checksum qrPayload ticket =
     (truthy (Some (checksumFromQr qrPayload)) \<and> truthy (Some (tsFromQr qrPayload)) \<and>
      str_truthy (mintPubkey ticket))"

definition scan_checksum_wrong :: "js_lib \<Rightarrow> json \<Rightarrow> Ticket \<Rightarrow> bool" where
  "scan_checksum_wrong L qrPayload ticket =
     (let fullAssetPubkey = the (mintPubkey ticket);
          ticketNumberForChecksum =
            (case js_opt_get qrPayload ''t'' of
               Some (JNum n) \<Rightarrow> Some n
             | x \<Rightarrow> js_Number L (if nullish x then JNum 0 else the x));
          expectedChecksum = calculateChecksumServer L
            (if eventIdFromQr qrPayload = JNull then JStr (eventId ticket) else eventIdFromQr qrPayload)
            ticketNumberForChecksum fullAssetPubkey (tsFromQr qrPayload)
      in checksumFromQr qrPayload \<noteq> JStr expectedChecksum)"

text \<open>Lines 133 to 159: the comparison of the payload's \<^verbatim>\<open>m\<close> with the ticket's mint.\<close>

definition scan_mint_mismatches :: "js_lib \<Rightarrow> json \<Rightarrow> Ticket \<Rightarrow> bool" where
  "scan_mint_mismatches L qrPayload ticket =
     (truthy (js_opt_get qrPayload ''m'') \<and> str_truthy (mintPubkey ticket) \<and>
      (let qrMint = js_trim (js_String L (the (js_opt_get qrPayload ''m'')));
           dbMint = js_trim (the (mintPubkey ticket));
           qrLower = toLowerCase qrMint;
           dbLower = toLowerCase dbMint;
           fullEq = (qrLower = dbLower);
           isShortPrefix = (length qrMint \<le> 16);
           prefixMatch = (isShortPrefix \<and> startsWith dbLower qrLower)
       in \<not> fullEq \<and> \<not> prefixMatch))"

text \<open>The \<^verbatim>\<open>data\<close> of the row that the handler inserts (lines 168 to 182).\<close>

definition pending_row :: "js_lib \<Rightarrow> rat \<Rightarrow> handler_env \<Rightarrow> scan_body \<Rightarrow> json \<Rightarrow> string \<Rightarrow> string \<Rightarrow> GateVerification" where
  "pending_row L DEFAULT_EXPIRES env body qrPayload ev tid =
     \<lparr>verificationId = new_id env,
      gv_eventId = ev,
      gv_ticketId = tid,
      verifierPubkey = (case sb_staffId body of Some s \<Rightarrow> s | None \<Rightarrow> ''unknown-staff''),
      gv_status = PENDING,
      verifiedAt = None,
      location = sb_gateId body,
      gv_notes = None,
      createdAt = clock_ms env,
      meta = JObj [(''expiresInSeconds'', JNum DEFAULT_EXPIRES),
                   (''issuedAt'', JStr (toISOString L (clock_ms env))),
                   (''gateId'', opt_json (sb_gateId body)),
                   (''staffId'', opt_json (sb_staffId body)),
                   (''rawQrPayload'', qrPayload)]\<rparr>"

text \<open>
  The handler. \<open>DEFAULT_EXPIRES\<close> is the module constant read from the environment.
  The only write is the insertion of a \<open>PENDING\<close> row; when the insertion throws, the
  handler answers with no verification id.
\<close>

definition scan_POST :: "js_lib \<Rightarrow> rat \<Rightarrow> handler_env \<Rightarrow> db \<Rightarrow> scan_body option \<Rightarrow> scan_response \<times> db" where
  "scan_POST L DEFAULT_EXPIRES env d request =
     (case request of
        None \<Rightarrow> (scan_invalid_json, d)
      | Some body \<Rightarrow>
          if \<not> str_truthy (sb_qrString body) then (scan_missing_qrString, d)
          else
            case scan_payload L (the (sb_qrString body)) of
              None \<Rightarrow> (scan_invalid_qr_format, d)
            | Some qrPayload \<Rightarrow>
                if \<not> truthy (Some (ticketIdFromQr qrPayload)) \<and>
                   \<not> truthy (Some (mintPubkeyRaw qrPayload))
                then (scan_qr_missing_fields, d)
                else if truthy (Some (versionFromQr qrPayload)) \<and> versionFromQr qrPayload \<noteq> JNum 1
                then (scan_unsupported_qr_version, d)
                else if (case tsFromQr qrPayload of
                           JNum ts \<Rightarrow> unix_seconds (clock_ms env) - ts > maxAge
                         | _ \<Rightarrow> False)
                then (scan_qr_expired, d)
                else
                  case scan_find_ticket d qrPayload of
                    None \<Rightarrow> (scan_ticket_not_found, d)
                  | Some ticket \<Rightarrow>
                      if scan_checks_checksum qrPayload ticket \<and>
                         scan_checksum_wrong L qrPayload ticket
                      then (scan_qr_tampered, d)
                      else if scan_mint_mismatches L qrPayload ticket
                      then (scan_mint_mismatch
                              (js_trim (js_String L (the (js_opt_get qrPayload ''m''))))
                              (js_trim (the (mintPubkey ticket))), d)
                      else if status ticket \<noteq> ACTIVE
                      then (scan_ticket_not_active (status ticket), d)
                      else
                        let eventJson = (if eventIdFromQr qrPayload = JNull
                                         then JStr (eventId ticket) else eventIdFromQr qrPayload);
                            inserted =
                              (case eventJson of
                                 JStr ev \<Rightarrow>
                                   gv_create d (pending_row L DEFAULT_EXPIRES env body qrPayload ev (ticketId ticket))
                               | _ \<Rightarrow> None)
                        in
                        case inserted of
                          Some d' \<Rightarrow>
                            (scan_ok (ticketId ticket) eventJson (Some (new_id env)) DEFAULT_EXPIRES, d')
                        | None \<Rightarrow>
                            (scan_ok (ticketId ticket) eventJson None DEFAULT_EXPIRES, d))"

section \<open>Reference implementations of the library functions\<close>

text \<open>
  Executable versions of the library functions, on ASCII text, so that the handlers can
  be run on concrete requests. The theorems about the handlers hold for any library;
  these definitions only supply the instance at which they are exercised.
\<close>

subsection \<open>Base64\<close>

definition b64url_alphabet :: string where
  "b64url_alphabet = ''ABCDEFGHIJKLMNOPQRSTUVWXYZabcdefghijklmnopqrstuvwxyz0123456789-_''"

definition b64std_alphabet :: string where
  "b64std_alphabet = ''ABCDEFGHIJKLMNOPQRSTUVWXYZabcdefghijklmnopqrstuvwxyz0123456789+/''"

fun index_of :: "'a \<Rightarrow> 'a list \<Rightarrow> int option" where
  "index_of x [] = None"
| "index_of x (y # ys) = (if x = y then Some 0 else map_option (\<lambda>i. i + 1) (index_of x ys))"

fun sextets_of :: "string \<Rightarrow> string \<Rightarrow> int list option" where
  "sextets_of alphabet [] = Some []"
| "sextets_of alphabet (x # xs) =
     (case index_of x alphabet of
        None \<Rightarrow> None
      | Some n \<Rightarrow> map_option ((#) n) (sextets_of alphabet xs))"

fun bytes_of_sextets :: "int list \<Rightarrow> int list option" where
  "bytes_of_sextets (p # q # r # s # rest) =
     map_option (\<lambda>bs. (p * 4 + q div 16) # ((q mod 16) * 16 + r div 4) # ((r mod 4) * 64 + s) # bs)
       (bytes_of_sextets rest)"
| "bytes_of_sextets [p, q, r] = Some [p * 4 + q div 16, (q mod 16) * 16 + r div 4]"
| "bytes_of_sextets [p, q] = Some [p * 4 + q div 16]"
| "bytes_of_sextets [p] = None"
| "bytes_of_sextets [] = Some []"

fun sextets_of_bytes :: "int list \<Rightarrow> int list" where
  "sextets_of_bytes (x # y # z # rest) =
     (x div 4) # ((x mod 4) * 16 + y div 16) # ((y mod 16) * 4 + z div 64) # (z mod 64) #
     sextets_of_bytes rest"
| "sextets_of_bytes [x, y] = [x div 4, (x mod 4) * 16 + y div 16, (y mod 16) * 4]"
| "sextets_of_bytes [x] = [x div 4, (x mod 4) * 16]"
| "sextets_of_bytes [] = []"

definition base64url_encode_ref :: "string \<Rightarrow> string" where
  "base64url_encode_ref s =
     map (\<lambda>n. b64url_alphabet ! nat n) (sextets_of_bytes (map of_char s))"

definition base64_decode_with :: "string \<Rightarrow> string \<Rightarrow> string option" where
  "base64_decode_with alphabet s =
     (case sextets_of alphabet s of
        None \<Rightarrow> None
      | Some ns \<Rightarrow> map_option (map char_of) (bytes_of_sextets ns))"

definition base64url_decode_ref :: "string \<Rightarrow> string option" where
  "base64url_decode_ref s = base64_decode_with b64url_alphabet s"

definition buffer_base64_utf8_ref :: "string \<Rightarrow> string" where
  "buffer_base64_utf8_ref s =
     (case base64_decode_with b64std_alphabet (takeWhile (\<lambda>x. x \<noteq> CHR ''='') s) of
        None \<Rightarrow> []
      | Some txt \<Rightarrow> txt)"

subsection \<open>Numbers as text\<close>

definition is_digit :: "char \<Rightarrow> bool" where
  "is_digit x = ((48::int) \<le> of_char x \<and> (of_char x :: int) \<le> 57)"

definition int_of_digits :: "string \<Rightarrow> int" where
  "int_of_digits ds = foldl (\<lambda>n x. 10 * n + (of_char x - 48)) 0 ds"

function dec_digits :: "int \<Rightarrow> string" where
  "dec_digits n =
     (if n < 10 then [char_of (48 + n)] else dec_digits (n div 10) @ [char_of (48 + n mod 10)])"
  by pat_completeness auto
termination
  by (relation "measure nat") auto

primrec frac_digits :: "nat \<Rightarrow> int \<Rightarrow> int \<Rightarrow> string" where
  "frac_digits 0 num den = []"
| "frac_digits (Suc k) num den =
     (if num = 0 then []
      else char_of (48 + (10 * num) div den) # frac_digits k ((10 * num) mod den) den)"

definition number_to_string_ref :: "rat \<Rightarrow> string" where
  "number_to_string_ref r =
     (let (n, d) = quotient_of r;
          m = \<bar>n\<bar>
      in (if n < 0 then ''-'' else []) @ dec_digits (m div d) @
         (if m mod d = 0 then [] else ''.'' @ frac_digits 20 (m mod d) d))"

definition parse_number :: "string \<Rightarrow> (json \<times> string) option" where
  "parse_number s =
     (let neg = startsWith s ''-'';
          s1 = (if neg then drop 1 s else s);
          ip = takeWhile is_digit s1;
          s2 = dropWhile is_digit s1;
          has_frac = (startsWith s2 ''.'');
          fp = (if has_frac then takeWhile is_digit (drop 1 s2) else []);
          s3 = (if has_frac then dropWhile is_digit (drop 1 s2) else s2);
          has_exp = (startsWith s3 ''e'' \<or> startsWith s3 ''E'');
          s4 = (if has_exp then drop 1 s3 else s3);
          eneg = startsWith s4 ''-'';
          s5 = (if has_exp \<and> (eneg \<or> startsWith s4 ''+'') then drop 1 s4 else s4);
          ep = (if has_exp then takeWhile is_digit s5 else []);
          s6 = (if has_exp then dropWhile is_digit s5 else s5);
          mant = (of_int (int_of_digits (ip @ fp)) :: rat) / 10 ^ length fp;
          scaled = (if eneg then mant / 10 ^ nat (int_of_digits ep)
                    else mant * 10 ^ nat (int_of_digits ep))
      in if ip = [] \<or> (length ip > 1 \<and> startsWith ip ''0'') \<or> (has_frac \<and> fp = []) \<or>
            (has_exp \<and> ep = [])
         then None
         else Some (JNum (if neg then - scaled else scaled), s6))"

definition string_to_number_ref :: "string \<Rightarrow> rat option" where
  "string_to_number_ref s =
     (let s' = js_trim s in
      if s' = [] then Some 0
      else case parse_number s' of
             Some (JNum n, []) \<Rightarrow> Some n
           | _ \<Rightarrow> None)"

subsection \<open>JSON text\<close>

definition is_ws :: "char \<Rightarrow> bool" where
  "is_ws x = (x = CHR '' '' \<or> x = CHR 0x09 \<or> x = CHR 0x0A \<or> x = CHR 0x0D)"

fun parse_string :: "string \<Rightarrow> string \<Rightarrow> (string \<times> string) option" where
  "parse_string acc [] = None"
| "parse_string acc (x # xs) =
     (if x = CHR 0x22 then Some (rev acc, xs)
      else if x = CHR 0x5C then
        (case xs of
           [] \<Rightarrow> None
         | y # ys \<Rightarrow>
             if y = CHR 0x22 \<or> y = CHR 0x5C \<or> y = CHR ''/'' then parse_string (y # acc) ys
             else if y = CHR ''n'' then parse_string (CHR 0x0A # acc) ys
             else if y = CHR ''t'' then parse_string (CHR 0x09 # acc) ys
             else if y = CHR ''r'' then parse_string (CHR 0x0D # acc) ys
             else if y = CHR ''b'' then parse_string (CHR 0x08 # acc) ys
             else if y = CHR ''f'' then parse_string (CHR 0x0C # acc) ys
             else None)
      else if (of_char x :: int) < 32 then None
      else parse_string (x # acc) xs)"

datatype parse_mode = PValue | PElements "json list" | PMembers "(string \<times> json) list"

text \<open>A recursive-descent parser; the first argument bounds the number of nested
  calls and is set to more than the length of the text.\<close>

primrec parse_json :: "nat \<Rightarrow> parse_mode \<Rightarrow> string \<Rightarrow> (json \<times> string) option" where
  "parse_json 0 = (\<lambda>m s. None)"
| "parse_json (Suc n) = (\<lambda>m s.
     case m of
       PValue \<Rightarrow>
         (let s' = dropWhile is_ws s in
          if startsWith s' ''null'' then Some (JNull, drop 4 s')
          else if startsWith s' ''true'' then Some (JBool True, drop 4 s')
          else if startsWith s' ''false'' then Some (JBool False, drop 5 s')
          else if startsWith s' [CHR 0x22] then
            map_option (\<lambda>(str, rest). (JStr str, rest)) (parse_string [] (drop 1 s'))
          else if startsWith s' ''['' then
            (let r = dropWhile is_ws (drop 1 s') in
             if startsWith r '']'' then Some (JArr [], drop 1 r) else parse_json n (PElements []) r)
          else if startsWith s' ''{'' then
            (let r = dropWhile is_ws (drop 1 s') in
             if startsWith r ''}'' then Some (JObj [], drop 1 r) else parse_json n (PMembers []) r)
          else parse_number s')
     | PElements acc \<Rightarrow>
         (case parse_json n PValue s of
            None \<Rightarrow> None
          | Some (x, rest) \<Rightarrow>
              (let r = dropWhile is_ws rest in
               if startsWith r '','' then parse_json n (PElements (acc @ [x])) (drop 1 r)
               else if startsWith r '']'' then Some (JArr (acc @ [x]), drop 1 r)
               else None))
     | PMembers acc \<Rightarrow>
         (let s' = dropWhile is_ws s in
          if \<not> startsWith s' [CHR 0x22] then None
          else
            case parse_string [] (drop 1 s') of
              None \<Rightarrow> None
            | Some (k, rest) \<Rightarrow>
                (let r = dropWhile is_ws rest in
                 if \<not> startsWith r '':'' then None
                 else
                   case parse_json n PValue (drop 1 r) of
                     None \<Rightarrow> None
                   | Some (x, rest') \<Rightarrow>
                       (let r' = dropWhile is_ws rest' in
                        if startsWith r' '','' then parse_json n (PMembers (acc @ [(k, x)])) (drop 1 r')
                        else if startsWith r' ''}'' then Some (JObj (acc @ [(k, x)]), drop 1 r')
                        else None))))"

definition json_parse_ref :: "string \<Rightarrow> json option" where
  "json_parse_ref s =
     (case parse_json (Suc (length s)) PValue s of
        None \<Rightarrow> None
      | Some (x, rest) \<Rightarrow> if dropWhile is_ws rest = [] then Some x else None)"

definition hex_char :: "int \<Rightarrow> char" where
  "hex_char n = (''0123456789abcdef'' ! nat n)"

definition escape_char :: "char \<Rightarrow> string" where
  "escape_char x =
     (if x = CHR 0x22 then [CHR 0x5C, CHR 0x22]
      else if x = CHR 0x5C then [CHR 0x5C, CHR 0x5C]
      else if x = CHR 0x0A then [CHR 0x5C, CHR ''n'']
      else if x = CHR 0x0D then [CHR 0x5C, CHR ''r'']
      else if x = CHR 0x09 then [CHR 0x5C, CHR ''t'']
      else if x = CHR 0x08 then [CHR 0x5C, CHR ''b'']
      else if x = CHR 0x0C then [CHR 0x5C, CHR ''f'']
      else if (of_char x :: int) < 32
        then [CHR 0x5C, CHR ''u'', CHR ''0'', CHR ''0'', hex_char (of_char x div 16), hex_char (of_char x mod 16)]
      else [x])"

definition quote_string :: "string \<Rightarrow> string" where
  "quote_string s = [CHR 0x22] @ concat (map escape_char s) @ [CHR 0x22]"

fun json_stringify_ref :: "json \<Rightarrow> string" where
  "json_stringify_ref JNull = ''null''"
| "json_stringify_ref (JBool b) = (if b then ''true'' else ''false'')"
| "json_stringify_ref (JNum n) = number_to_string_ref n"
| "json_stringify_ref (JStr s) = quote_string s"
| "json_stringify_ref (JArr xs) = ''['' @ join_with '','' (map json_stringify_ref xs) @ '']''"
| "json_stringify_ref (JObj kvs) =
     ''{'' @ join_with '','' (map (\<lambda>kv. quote_string (fst kv) @ '':'' @ json_stringify_ref (snd kv)) kvs) @ ''}''"

subsection \<open>Percent decoding\<close>

definition hex_value :: "char \<Rightarrow> int option" where
  "hex_value x = index_of (lower_char x) ''0123456789abcdef''"

fun decodeURIComponent_ref :: "string \<Rightarrow> string option" where
  "decodeURIComponent_ref [] = Some []"
| "decodeURIComponent_ref (x # xs) =
     (if x = CHR ''%'' then
        (case xs of
           p # q # rest \<Rightarrow>
             (case (hex_value p, hex_value q) of
                (Some hi, Some lo) \<Rightarrow>
                  if hi < 8 then map_option ((#) (char_of (16 * hi + lo))) (decodeURIComponent_ref rest)
                  else None
              | _ \<Rightarrow> None)
         | _ \<Rightarrow> None)
      else map_option ((#) x) (decodeURIComponent_ref xs))"

subsection \<open>Dates\<close>

definition pad_digits :: "nat \<Rightarrow> int \<Rightarrow> string" where
  "pad_digits width n = (let ds = dec_digits n in replicate (width - length ds) (CHR ''0'') @ ds)"

definition toISOString_ref :: "int \<Rightarrow> string" where
  "toISOString_ref ms =
     (let days = ms div 86400000;
          rest = ms mod 86400000;
          z = days + 719468;
          era = z div 146097;
          doe = z mod 146097;
          yoe = (doe - doe div 1460 + doe div 36524 - doe div 146096) div 365;
          doy = doe - (365 * yoe + yoe div 4 - yoe div 100);
          mp = (5 * doy + 2) div 153;
          dd = doy - (153 * mp + 2) div 5 + 1;
          mm = (if mp < 10 then mp + 3 else mp - 9);
          yy = yoe + era * 400 + (if mm \<le> 2 then 1 else 0)
      in pad_digits 4 yy @ ''-'' @ pad_digits 2 mm @ ''-'' @ pad_digits 2 dd @ ''T'' @
         pad_digits 2 (rest div 3600000) @ '':'' @ pad_digits 2 ((rest div 60000) mod 60) @ '':'' @
         pad_digits 2 ((rest div 1000) mod 60) @ ''.'' @ pad_digits 3 (rest mod 1000) @ ''Z'')"

subsection \<open>SHA-256\<close>

definition sha_K :: "32 word list" where
  "sha_K =
     [1116352408, 1899447441, 3049323471, 3921009573, 961987163, 1508970993,
      2453635748, 2870763221, 3624381080, 310598401, 607225278, 1426881987,
      1925078388, 2162078206, 2614888103, 3248222580, 3835390401, 4022224774,
      264347078, 604807628, 770255983, 1249150122, 1555081692, 1996064986,
      2554220882, 2821834349, 2952996808, 3210313671, 3336571891, 3584528711,
      113926993, 338241895, 666307205, 773529912, 1294757372, 1396182291,
      1695183700, 1986661051, 2177026350, 2456956037, 2730485921, 2820302411,
      3259730800, 3345764771, 3516065817, 3600352804, 4094571909, 275423344,
      430227734, 506948616, 659060556, 883997877, 958139571, 1322822218,
      1537002063, 1747873779, 1955562222, 2024104815, 2227730452, 2361852424,
      2428436474, 2756734187, 3204031479, 3329325298]"

definition sha_H0 :: "32 word list" where
  "sha_H0 =
     [1779033703, 3144134277, 1013904242, 2773480762,
      1359893119, 2600822924, 528734635, 1541459225]"

definition sha_pad :: "int list \<Rightarrow> int list" where
  "sha_pad bs =
     (let l = length bs; k = (119 - l mod 64) mod 64; n = 8 * int l
      in bs @ [128] @ replicate k 0 @ map (\<lambda>i. (n div 256 ^ i) mod 256) [7, 6, 5, 4, 3, 2, 1, 0])"

fun be_words :: "int list \<Rightarrow> 32 word list" where
  "be_words (b0 # b1 # b2 # b3 # bs) =
     of_int (((b0 * 256 + b1) * 256 + b2) * 256 + b3) # be_words bs"
| "be_words _ = []"

text \<open>The message schedule, newest word first.\<close>

primrec sha_schedule :: "nat \<Rightarrow> 32 word list \<Rightarrow> 32 word list" where
  "sha_schedule 0 rs = rs"
| "sha_schedule (Suc n) rs =
     sha_schedule n
       ((rs ! 15 + (word_rotr 7 (rs ! 14) XOR word_rotr 18 (rs ! 14) XOR drop_bit 3 (rs ! 14)) +
         rs ! 6 + (word_rotr 17 (rs ! 1) XOR word_rotr 19 (rs ! 1) XOR drop_bit 10 (rs ! 1))) # rs)"

definition sha_round :: "32 word list \<Rightarrow> 32 word \<times> 32 word \<Rightarrow> 32 word list" where
  "sha_round hs kw =
     (let a = hs ! 0; b = hs ! 1; c = hs ! 2; d = hs ! 3;
          e = hs ! 4; f = hs ! 5; g = hs ! 6; h = hs ! 7;
          t1 = h + (word_rotr 6 e XOR word_rotr 11 e XOR word_rotr 25 e) +
               ((e AND f) XOR (NOT e AND g)) + fst kw + snd kw;
          t2 = (word_rotr 2 a XOR word_rotr 13 a XOR word_rotr 22 a) +
               ((a AND b) XOR (a AND c) XOR (b AND c))
      in [t1 + t2, a, b, c, d + t1, e, f, g])"

definition sha_block :: "32 word list \<Rightarrow> 32 word list \<Rightarrow> 32 word list" where
  "sha_block hs ws =
     map2 (+) hs (foldl sha_round hs (zip sha_K (rev (sha_schedule 48 (rev ws)))))"

fun sha_blocks :: "32 word list \<Rightarrow> 32 word list \<Rightarrow> 32 word list" where
  "sha_blocks hs ws =
     (if length ws < 16 then hs else sha_blocks (sha_block hs (take 16 ws)) (drop 16 ws))"

definition word_hex :: "32 word \<Rightarrow> string" where
  "word_hex w = map (\<lambda>i. hex_char (uint (drop_bit (4 * i) w AND 15))) [7, 6, 5, 4, 3, 2, 1, 0]"

definition sha256_hex_ref :: "string \<Rightarrow> string" where
  "sha256_hex_ref s = concat (map word_hex (sha_blocks sha_H0 (be_words (sha_pad (map of_char s)))))"

subsection \<open>The reference library\<close>

definition ref_lib :: js_lib where
  "ref_lib =
     \<lparr>base64url_encode = base64url_encode_ref,
      base64url_decode = base64url_decode_ref,
      text_decode = (\<lambda>s. s),
      json_stringify = json_stringify_ref,
      json_parse = json_parse_ref,
      sha256_hex = sha256_hex_ref,
      number_to_string = number_to_string_ref,
      string_to_number = string_to_number_ref,
      buffer_base64_utf8 = buffer_base64_utf8_ref,
      decodeURIComponent = decodeURIComponent_ref,
      toISOString = toISOString_ref\<rparr>"

section \<open>Predicates used in the statements\<close>

text \<open>
  The specification groups the errors of \<^verbatim>\<open>parseQRCode\<close> into two classes. Its
  \<open>MalformedPayload\<close> is every error but the version error.
\<close>

definition is_MalformedPayload :: "qr_error \<Rightarrow> bool" where
  "is_MalformedPayload err =
     (err = InvalidQRFormat \<or> err = DecodeException \<or> err = TypeErrorOnNull \<or>
      err = MalformedMissingFields \<or> err = InvalidTicketNumber \<or> err = InvalidTimestamp)"

text \<open>What the handler checks of the ticket number and of the timestamp: a number
  above zero.\<close>

definition positive_number :: "json option \<Rightarrow> bool" where
  "positive_number x = (is_number x \<and> \<not> num_le_zero x)"

text \<open>The six fields are all truthy.\<close>

definition all_fields_truthy :: "json \<Rightarrow> bool" where
  "all_fields_truthy x =
     (truthy (js_get x ''v'') \<and> truthy (js_get x ''e'') \<and> truthy (js_get x ''t'') \<and>
      truthy (js_get x ''a'') \<and> truthy (js_get x ''c'') \<and> truthy (js_get x ''ts''))"

text \<open>The value that the three library calls of \<^verbatim>\<open>parseQRCode\<close> produce from the text
  after the scheme prefix; \<open>None\<close> when one of them throws.\<close>

definition decoded_body :: "js_lib \<Rightarrow> string \<Rightarrow> json option" where
  "decoded_body L qrString =
     (case base64url_decode L (drop (length ''parchi:'') qrString) of
        None \<Rightarrow> None
      | Some decodedBytes \<Rightarrow> json_parse L (text_decode L decodedBytes))"


text \<open>
  The conditional update of the verify handler, written as the specification names it:
  \<open>markUsed\<close> turns every \<open>ACTIVE\<close> row with the given ticket id into a \<open>USED\<close> row
  and leaves every other row as it is. \<open>has_active\<close> says that the update would change
  a row.
\<close>

definition has_active :: "db \<Rightarrow> string \<Rightarrow> bool" where
  "has_active d tid = (\<exists>r \<in> set (tickets d). ticketId r = tid \<and> status r = ACTIVE)"

definition redeem_row :: "int \<Rightarrow> string \<Rightarrow> Ticket \<Rightarrow> Ticket" where
  "redeem_row usedAt' tid r =
     (if ticketId r = tid \<and> status r = ACTIVE then r\<lparr>status := USED, usedAt := Some usedAt'\<rparr> else r)"

definition markUsed :: "int \<Rightarrow> string \<Rightarrow> db \<Rightarrow> db" where
  "markUsed usedAt' tid d = d\<lparr>tickets := map (redeem_row usedAt' tid) (tickets d)\<rparr>"

text \<open>The ticket id that the transaction resolves from the body: the \<open>ticketId\<close> of the
  body when it is truthy, else the ticket of the verification row that the body names.\<close>

definition resolved_id :: "db \<Rightarrow> verify_body \<Rightarrow> string option" where
  "resolved_id d body =
     (if str_truthy (vb_ticketId body) then vb_ticketId body
      else if str_truthy (vb_verificationId body)
        then map_option gv_ticketId (gv_findUnique d (the (vb_verificationId body)))
      else None)"

text \<open>The constraints of the schema: the primary keys of the two tables, and the foreign
  key from a ticket to its event.\<close>

definition primary_keys :: "db \<Rightarrow> bool" where
  "primary_keys d =
     (distinct (map ticketId (tickets d)) \<and> distinct (map verificationId (gateVerifications d)))"

definition foreign_keys :: "db \<Rightarrow> bool" where
  "foreign_keys d = (\<forall>r \<in> set (tickets d). eventId r \<in> set (events d))"

text \<open>
  The invariant of the specification: every \<open>USED\<close> ticket has a \<open>VERIFIED\<close> record,
  and no \<open>VERIFIED\<close> record points to a ticket that is not \<open>USED\<close>.
\<close>

definition used_has_verified :: "db \<Rightarrow> bool" where
  "used_has_verified d =
     (\<forall>r \<in> set (tickets d). status r = USED \<longrightarrow>
        (\<exists>g \<in> set (gateVerifications d). gv_ticketId g = ticketId r \<and> gv_status g = VERIFIED))"

definition verified_has_used :: "db \<Rightarrow> bool" where
  "verified_has_used d =
     (\<forall>g \<in> set (gateVerifications d). gv_status g = VERIFIED \<longrightarrow>
        (\<forall>r \<in> set (tickets d). ticketId r = gv_ticketId g \<longrightarrow> status r = USED))"

definition consistent :: "db \<Rightarrow> bool" where
  "consistent d = (used_has_verified d \<and> verified_has_used d)"

text \<open>
  Several verify calls. Each call is one transaction, and its conditional update locks
  the row it changes until the transaction ends, so the calls that touch one ticket take
  effect in some order, one after the other; the list is that order.
\<close>

primrec verify_calls :: "js_lib \<Rightarrow> db \<Rightarrow> (handler_env \<times> verify_body) list \<Rightarrow> verify_response list \<times> db" where
  "verify_calls L d [] = ([], d)"
| "verify_calls L d (c # cs) =
     (let (response, d1) = verify_POST L (fst c) d (Some (snd c));
          (responses, d2) = verify_calls L d1 cs
      in (response # responses, d2))"

text \<open>A call targets a ticket when it has an id to go by, the transaction resolves this
  ticket from it, and the verification row it names, if it names one, is a row of this
  ticket.\<close>

definition targets :: "db \<Rightarrow> string \<Rightarrow> verify_body \<Rightarrow> bool" where
  "targets d tid body =
     ((str_truthy (vb_ticketId body) \<or> str_truthy (vb_verificationId body)) \<and>
      resolved_id d body = Some tid \<and>
      (str_truthy (vb_verificationId body) \<longrightarrow>
         map_option gv_ticketId (gv_findUnique d (the (vb_verificationId body))) = Some tid))"

subsection \<open>An example store\<close>

text \<open>Two tickets of one event, the first active with a pending scan, the second
  redeemed; two clocks; and the body of a verify request with the given ids.\<close>

definition example_ticket :: Ticket where
  "example_ticket =
     \<lparr>ticketId = ''ticket-7'', eventId = ''evt_abc'', holderPubkey = ''holder-1'',
      mintPubkey = Some ''Abc12345XYZ'', purchasePrice = 1000000, seatNumber = None, tier = None,
      status = ACTIVE, purchasedAt = 1700000000000, usedAt = None, metadataUri = None\<rparr>"

definition used_ticket :: Ticket where
  "used_ticket =
     \<lparr>ticketId = ''ticket-8'', eventId = ''evt_abc'', holderPubkey = ''holder-2'',
      mintPubkey = Some ''Xyz98765ABC'', purchasePrice = 1000000, seatNumber = None, tier = None,
      status = USED, purchasedAt = 1700000000000, usedAt = Some 1700000030000, metadataUri = None\<rparr>"

definition example_pending :: GateVerification where
  "example_pending =
     \<lparr>verificationId = ''gv-1'', gv_eventId = ''evt_abc'', gv_ticketId = ''ticket-7'',
      verifierPubkey = ''staff-1'', gv_status = PENDING, verifiedAt = None,
      location = Some ''gate-A'', gv_notes = None, createdAt = 1700000050000, meta = JObj []\<rparr>"

definition example_verified :: GateVerification where
  "example_verified =
     \<lparr>verificationId = ''gv-2'', gv_eventId = ''evt_abc'', gv_ticketId = ''ticket-8'',
      verifierPubkey = ''staff-1'', gv_status = VERIFIED, verifiedAt = Some 1700000030000,
      location = Some ''gate-A'', gv_notes = None, createdAt = 1700000030000, meta = JObj []\<rparr>"

definition example_db :: db where
  "example_db =
     \<lparr>events = [''evt_abc''], tickets = [example_ticket, used_ticket],
      gateVerifications = [example_pending, example_verified]\<rparr>"

definition example_env :: handler_env where
  "example_env = \<lparr>clock_ms = 1700000060000, new_id = ''gv-3''\<rparr>"

definition later_env :: handler_env where
  "later_env = \<lparr>clock_ms = 1700000090000, new_id = ''gv-4''\<rparr>"

definition request_by :: "string option \<Rightarrow> string option \<Rightarrow> verify_body" where
  "request_by tid vid =
     \<lparr>vb_ticketId = tid, vb_verificationId = vid, vb_staffId = Some ''staff-2'', vb_gateId = None\<rparr>"

definition example_calls :: "(handler_env \<times> verify_body) list" where
  "example_calls =
     [(example_env, request_by (Some ''ticket-7'') None),
      (later_env, request_by None (Some ''gv-1'')),
      (later_env, request_by (Some ''ticket-7'') (Some ''gv-1''))]"

section \<open>Facts about the helpers\<close>

lemma replace_first_prefix:
  "startsWith s p \<Longrightarrow> replace_first p r s = r @ drop (length p) s"
  by (cases s) (auto simp: startsWith_def)

lemma startsWith_append [simp]: "startsWith (p @ s) p"
  by (simp add: startsWith_def)

lemma all_fields_truthy_not_null [simp]: "\<not> all_fields_truthy JNull"
  by (simp add: all_fields_truthy_def)

lemma parseQRCode_unfold:
  "parseQRCode L s =
     (if \<not> startsWith s ''parchi:'' then Inl InvalidQRFormat
      else case decoded_body L s of
             None \<Rightarrow> Inl DecodeException
           | Some x \<Rightarrow>
               if x = JNull then Inl TypeErrorOnNull
               else if \<not> all_fields_truthy x then Inl MalformedMissingFields
               else if js_get x ''v'' \<noteq> Some (JNum 1) then Inl UnsupportedQRVersion
               else if \<not> positive_number (js_get x ''t'') then Inl InvalidTicketNumber
               else if \<not> positive_number (js_get x ''ts'') then Inl InvalidTimestamp
               else Inr x)"
  unfolding parseQRCode_def decoded_body_def all_fields_truthy_def positive_number_def Let_def
  by (auto simp: replace_first_prefix split: option.splits)


lemma js_get_payload_json [simp]:
  "js_get (payload_json p) ''v'' = Some (JNum (qr_v p))"
  "js_get (payload_json p) ''e'' = Some (JStr (qr_e p))"
  "js_get (payload_json p) ''t'' = Some (JNum (qr_t p))"
  "js_get (payload_json p) ''a'' = Some (JStr (qr_a p))"
  "js_get (payload_json p) ''ts'' = Some (JNum (qr_ts p))"
  "js_get (payload_json p) ''c'' = Some (JStr (qr_c p))"
  by (simp_all add: payload_json_def)

lemma finalPayload_fields:
  "finalPayload L now eventId' n assetId =
     \<lparr>qr_v = 1, qr_e = eventId', qr_t = n, qr_a = take 8 assetId,
      qr_ts = unix_seconds now,
      qr_c = calculateChecksum L eventId' n assetId (unix_seconds now)\<rparr>"
  by (simp add: finalPayload_def calculateChecksum_def Let_def)


subsection \<open>The reference library at the example ticket\<close>

text \<open>
  The example of the specification: event \<open>evt_abc\<close>, ticket 7, an asset id that starts
  with \<open>Abc12345\<close>, issued at 1700000000.
\<close>

lemma ref_lib_sel:
  "base64url_encode ref_lib = base64url_encode_ref"
  "base64url_decode ref_lib = base64url_decode_ref"
  "text_decode ref_lib = (\<lambda>s. s)"
  "json_stringify ref_lib = json_stringify_ref"
  "json_parse ref_lib = json_parse_ref"
  "sha256_hex ref_lib = sha256_hex_ref"
  "number_to_string ref_lib = number_to_string_ref"
  "string_to_number ref_lib = string_to_number_ref"
  "buffer_base64_utf8 ref_lib = buffer_base64_utf8_ref"
  "decodeURIComponent ref_lib = decodeURIComponent_ref"
  "toISOString ref_lib = toISOString_ref"
  by (simp_all add: ref_lib_def)

lemma sha256_example:
  "sha256_hex_ref ''evt_abc:7:Abc12345XYZ:1700000000'' =
     ''b0f2c0ad7998bed710a727c518f0ced7221daab55e5ebbfb5fc1c8530b0ad8dd''"
  by code_simp

lemma number_to_string_examples:
  "number_to_string_ref 7 = ''7''"
  "number_to_string_ref 1700000000 = ''1700000000''"
  by code_simp+

lemma checksum_example:
  "calculateChecksum ref_lib ''evt_abc'' 7 ''Abc12345XYZ'' 1700000000 = ''b0f2''"
  by (simp add: calculateChecksum_def ref_lib_sel number_to_string_examples sha256_example)

lemma finalPayload_example:
  "finalPayload ref_lib 1700000000123 ''evt_abc'' 7 ''Abc12345XYZ'' =
     \<lparr>qr_v = 1, qr_e = ''evt_abc'', qr_t = 7, qr_a = ''Abc12345'', qr_ts = 1700000000, qr_c = ''b0f2''\<rparr>"
  by (simp add: finalPayload_fields unix_seconds_def checksum_example)

lemma stringify_example:
  "json_stringify_ref (payload_json \<lparr>qr_v = 1, qr_e = ''evt_abc'', qr_t = 7, qr_a = ''Abc12345'',
      qr_ts = 1700000000, qr_c = ''b0f2''\<rparr>) =
   [CHR ''{'', CHR 0x22, CHR ''v'', CHR 0x22, CHR '':'', CHR ''1'', CHR '','',
    CHR 0x22, CHR ''e'', CHR 0x22, CHR '':'', CHR 0x22] @ ''evt_abc'' @
   [CHR 0x22, CHR '','', CHR 0x22, CHR ''t'', CHR 0x22, CHR '':'', CHR ''7'', CHR '','',
    CHR 0x22, CHR ''a'', CHR 0x22, CHR '':'', CHR 0x22] @ ''Abc12345'' @
   [CHR 0x22, CHR '','', CHR 0x22, CHR ''t'', CHR ''s'', CHR 0x22, CHR '':''] @ ''1700000000'' @
   [CHR '','', CHR 0x22, CHR ''c'', CHR 0x22, CHR '':'', CHR 0x22] @ ''b0f2'' @ [CHR 0x22, CHR ''}'']"
  by code_simp


section \<open>The payload codec\<close>

text \<open>
  Claim C4 (round trip). For a non-empty event id, a positive integer ticket number, an
  asset id of at least eight characters and a clock whose second count is positive,
  \<^verbatim>\<open>parseQRCode\<close> applied to the string that \<^verbatim>\<open>generateTicketQR\<close> returns succeeds
  and yields exactly the object \<open>{v: 1, e: eventId, t: n, a: assetId[0:8], ts, c}\<close> where
  \<open>c\<close> is the checksum computed when the string was generated. The library is any
  library that, on the text of this one payload, decodes what it encodes, parses what it
  prints, and returns a digest that is not empty.
\<close>

theorem generate_parse_roundtrip:
  fixes n :: int
  assumes valid: "eventId' \<noteq> []" "0 < n" "8 \<le> length assetId" "0 < now div 1000"
    and payload: "p = finalPayload L now eventId' (of_int n) assetId"
    and base64: "\<exists>bytes. base64url_decode L (base64url_encode L (json_stringify L (payload_json p))) = Some bytes \<and>
                   text_decode L bytes = json_stringify L (payload_json p)"
    and json: "json_parse L (json_stringify L (payload_json p)) = Some (payload_json p)"
    and digest: "sha256_hex L (eventId' @ '':'' @ number_to_string L (of_int n) @ '':'' @ assetId @ '':'' @
                   number_to_string L (of_int (now div 1000))) \<noteq> []"
  shows "parseQRCode L (generateTicketQR L now eventId' (of_int n) assetId) =
           Inr (JObj [(''v'', JNum 1), (''e'', JStr eventId'), (''t'', JNum (of_int n)),
                      (''a'', JStr (take 8 assetId)), (''ts'', JNum (of_int (now div 1000))),
                      (''c'', JStr (calculateChecksum L eventId' (of_int n) assetId (of_int (now div 1000))))])"
proof -
  let ?ts = "unix_seconds now"
  have p: "p = \<lparr>qr_v = 1, qr_e = eventId', qr_t = of_int n, qr_a = take 8 assetId, qr_ts = ?ts,
                qr_c = calculateChecksum L eventId' (of_int n) assetId ?ts\<rparr>"
    using payload by (simp add: finalPayload_fields)
  have c: "qr_c p \<noteq> []"
    using digest by (simp add: p calculateChecksum_def unix_seconds_def Let_def)
  have a: "qr_a p \<noteq> []"
    using valid(3) by (auto simp: p)
  have truthy: "all_fields_truthy (payload_json p)"
    using valid c a by (simp add: all_fields_truthy_def) (simp add: p unix_seconds_def)
  have pos: "positive_number (js_get (payload_json p) ''t'')" "positive_number (js_get (payload_json p) ''ts'')"
    using valid by (simp_all add: positive_number_def p unix_seconds_def)
  have body: "decoded_body L (generateTicketQR L now eventId' (of_int n) assetId) = Some (payload_json p)"
    using base64 json by (auto simp: decoded_body_def generateTicketQR_def payload Let_def)
  have prefix: "startsWith (generateTicketQR L now eventId' (of_int n) assetId) ''parchi:''"
    by (simp add: generateTicketQR_def startsWith_def Let_def)
  have not_null: "payload_json p \<noteq> JNull"
    by (simp add: payload_json_def)
  have version: "js_get (payload_json p) ''v'' = Some (JNum 1)"
    by (simp add: p)
  have "parseQRCode L (generateTicketQR L now eventId' (of_int n) assetId) = Inr (payload_json p)"
    unfolding parseQRCode_unfold using truthy pos body prefix not_null version
    by simp
  then show ?thesis
    by (simp add: p payload_json_def unix_seconds_def)
qed


theorem generate_parse_roundtrip_witness:
  "generateTicketQR ref_lib 1700000000123 ''evt_abc'' (of_int 7) ''Abc12345XYZ'' =
     ''parchi:eyJ2IjoxLCJlIjoiZXZ0X2FiYyIsInQiOjcsImEiOiJBYmMxMjM0NSIsInRzIjoxNzAwMDAwMDAwLCJjIjoiYjBmMiJ9'' \<and>
   parseQRCode ref_lib
     ''parchi:eyJ2IjoxLCJlIjoiZXZ0X2FiYyIsInQiOjcsImEiOiJBYmMxMjM0NSIsInRzIjoxNzAwMDAwMDAwLCJjIjoiYjBmMiJ9'' =
     Inr (JObj [(''v'', JNum 1), (''e'', JStr ''evt_abc''), (''t'', JNum 7), (''a'', JStr ''Abc12345''),
                (''ts'', JNum 1700000000), (''c'', JStr ''b0f2'')])"
proof -
  let ?p = "\<lparr>qr_v = 1, qr_e = ''evt_abc'', qr_t = 7, qr_a = ''Abc12345'', qr_ts = 1700000000, qr_c = ''b0f2''\<rparr>"
  have p: "?p = finalPayload ref_lib 1700000000123 ''evt_abc'' (of_int 7) ''Abc12345XYZ''"
    by (simp add: finalPayload_example)
  have enc: "base64url_encode_ref (json_stringify_ref (payload_json ?p)) =
      ''eyJ2IjoxLCJlIjoiZXZ0X2FiYyIsInQiOjcsImEiOiJBYmMxMjM0NSIsInRzIjoxNzAwMDAwMDAwLCJjIjoiYjBmMiJ9''"
    unfolding stringify_example by code_simp
  have dec: "base64url_decode_ref
      ''eyJ2IjoxLCJlIjoiZXZ0X2FiYyIsInQiOjcsImEiOiJBYmMxMjM0NSIsInRzIjoxNzAwMDAwMDAwLCJjIjoiYjBmMiJ9'' =
      Some (json_stringify_ref (payload_json ?p))"
    unfolding stringify_example by code_simp
  have parse: "json_parse_ref (json_stringify_ref (payload_json ?p)) = Some (payload_json ?p)"
    unfolding stringify_example by code_simp
  have gen: "generateTicketQR ref_lib 1700000000123 ''evt_abc'' (of_int 7) ''Abc12345XYZ'' =
     ''parchi:eyJ2IjoxLCJlIjoiZXZ0X2FiYyIsInQiOjcsImEiOiJBYmMxMjM0NSIsInRzIjoxNzAwMDAwMDAwLCJjIjoiYjBmMiJ9''"
    using enc by (simp add: generateTicketQR_def finalPayload_example ref_lib_sel)
  have h1: "\<exists>bytes. base64url_decode ref_lib (base64url_encode ref_lib (json_stringify ref_lib (payload_json ?p))) = Some bytes \<and>
                   text_decode ref_lib bytes = json_stringify ref_lib (payload_json ?p)"
    using enc dec by (simp add: ref_lib_sel)
  have h2: "json_parse ref_lib (json_stringify ref_lib (payload_json ?p)) = Some (payload_json ?p)"
    using parse by (simp add: ref_lib_sel)
  have h3: "sha256_hex ref_lib (''evt_abc'' @ '':'' @ number_to_string ref_lib (of_int 7) @ '':'' @ ''Abc12345XYZ'' @ '':'' @
                   number_to_string ref_lib (of_int (1700000000123 div 1000))) \<noteq> []"
    by (simp add: ref_lib_sel number_to_string_examples sha256_example)
  have "parseQRCode ref_lib (generateTicketQR ref_lib 1700000000123 ''evt_abc'' (of_int 7) ''Abc12345XYZ'') =
           Inr (JObj [(''v'', JNum 1), (''e'', JStr ''evt_abc''), (''t'', JNum (of_int 7)),
                      (''a'', JStr (take 8 ''Abc12345XYZ'')), (''ts'', JNum (of_int (1700000000123 div 1000))),
                      (''c'', JStr (calculateChecksum ref_lib ''evt_abc'' (of_int 7) ''Abc12345XYZ'' (of_int (1700000000123 div 1000))))])"
    by (rule generate_parse_roundtrip [OF _ _ _ _ p h1 h2 h3]) simp_all
  then show ?thesis
    using gen by (simp add: checksum_example)
qed


text \<open>
  Claim C5, as amended. \<^verbatim>\<open>validateQRIntegrity\<close> first compares the age of the payload
  with one year and fails with the expiry error when it is older, whatever its checksum.
  For a payload that is not older, it fails with the checksum error exactly when the
  checksum of the payload differs from the first four characters of the digest of
  \<open>eventId : ticketNumber : fullAssetId : issuedAt\<close>; it fails with the asset mismatch
  exactly when the checksum is right and the asset id does not start with the prefix of
  the payload; and it succeeds exactly when the checksum is right and the prefix matches.
\<close>

theorem validateQRIntegrity_outcomes:
  "(unix_seconds now - qr_ts p > 365 * 24 * 60 * 60 \<longrightarrow>
      validateQRIntegrity L now p asset = Inl QRExpired) \<and>
   (\<not> unix_seconds now - qr_ts p > 365 * 24 * 60 * 60 \<longrightarrow>
      (validateQRIntegrity L now p asset = Inl InvalidChecksum \<longleftrightarrow>
         qr_c p \<noteq> take 4 (sha256_hex L (qr_e p @ '':'' @ number_to_string L (qr_t p) @ '':'' @ asset @ '':'' @
                                        number_to_string L (qr_ts p)))) \<and>
      (validateQRIntegrity L now p asset = Inl AssetPubkeyMismatch \<longleftrightarrow>
         qr_c p = take 4 (sha256_hex L (qr_e p @ '':'' @ number_to_string L (qr_t p) @ '':'' @ asset @ '':'' @
                                        number_to_string L (qr_ts p))) \<and>
         \<not> startsWith asset (qr_a p)) \<and>
      (validateQRIntegrity L now p asset = Inr () \<longleftrightarrow>
         qr_c p = take 4 (sha256_hex L (qr_e p @ '':'' @ number_to_string L (qr_t p) @ '':'' @ asset @ '':'' @
                                        number_to_string L (qr_ts p))) \<and>
         startsWith asset (qr_a p)))"
  by (simp add: validateQRIntegrity_def calculateChecksum_def maxAge_def Let_def)


theorem validateQRIntegrity_outcomes_witness:
  "validateQRIntegrity ref_lib 1700000100000
     \<lparr>qr_v = 1, qr_e = ''evt_abc'', qr_t = 7, qr_a = ''Abc12345'', qr_ts = 1700000000, qr_c = ''0000''\<rparr>
     ''Abc12345XYZ'' = Inl InvalidChecksum \<and>
   validateQRIntegrity ref_lib 1700000100000
     \<lparr>qr_v = 1, qr_e = ''evt_abc'', qr_t = 7, qr_a = ''Zzz12345'', qr_ts = 1700000000, qr_c = ''b0f2''\<rparr>
     ''Abc12345XYZ'' = Inl AssetPubkeyMismatch \<and>
   validateQRIntegrity ref_lib 1700000100000
     \<lparr>qr_v = 1, qr_e = ''evt_abc'', qr_t = 7, qr_a = ''Abc12345'', qr_ts = 1700000000, qr_c = ''b0f2''\<rparr>
     ''Abc12345XYZ'' = Inr () \<and>
   validateQRIntegrity ref_lib 1800000000000
     \<lparr>qr_v = 1, qr_e = ''evt_abc'', qr_t = 7, qr_a = ''Abc12345'', qr_ts = 1700000000, qr_c = ''b0f2''\<rparr>
     ''Abc12345XYZ'' = Inl QRExpired"
proof -
  note t = validateQRIntegrity_outcomes [where L = ref_lib and asset = "''Abc12345XYZ''"]
  show ?thesis
    using t [of 1700000100000 "\<lparr>qr_v = 1, qr_e = ''evt_abc'', qr_t = 7, qr_a = ''Abc12345'', qr_ts = 1700000000, qr_c = ''0000''\<rparr>"]
          t [of 1700000100000 "\<lparr>qr_v = 1, qr_e = ''evt_abc'', qr_t = 7, qr_a = ''Zzz12345'', qr_ts = 1700000000, qr_c = ''b0f2''\<rparr>"]
          t [of 1700000100000 "\<lparr>qr_v = 1, qr_e = ''evt_abc'', qr_t = 7, qr_a = ''Abc12345'', qr_ts = 1700000000, qr_c = ''b0f2''\<rparr>"]
          t [of 1800000000000 "\<lparr>qr_v = 1, qr_e = ''evt_abc'', qr_t = 7, qr_a = ''Abc12345'', qr_ts = 1700000000, qr_c = ''b0f2''\<rparr>"]
    by (simp add: ref_lib_sel number_to_string_examples sha256_example unix_seconds_def startsWith_def)
qed


text \<open>
  The claim as first stated fails for an expired payload: its checksum differs from the
  recomputed one, and the error is the expiry error, not the checksum error.
\<close>

theorem validateQRIntegrity_counterexample:
  "validateQRIntegrity ref_lib 1800000000000
     \<lparr>qr_v = 1, qr_e = ''evt_abc'', qr_t = 7, qr_a = ''Abc12345'', qr_ts = 1700000000, qr_c = ''0000''\<rparr>
     ''Abc12345XYZ'' = Inl QRExpired \<and>
   ''0000'' \<noteq> calculateChecksum ref_lib ''evt_abc'' 7 ''Abc12345XYZ'' 1700000000"
  by (simp add: validateQRIntegrity_def unix_seconds_def maxAge_def checksum_example)


text \<open>
  Claim C6, as amended. \<^verbatim>\<open>parseQRCode\<close> succeeds exactly when the prefix is present,
  the body decodes and parses, each of the six fields is truthy, \<open>v\<close> is the number 1,
  and \<open>t\<close> and \<open>ts\<close> are numbers above zero (whether they are integers is not examined).
  It fails with the version error exactly when the body decodes, the six fields are
  truthy and \<open>v\<close> is not the number 1. It fails with an error of the malformed class
  exactly when the prefix is absent, or the body does not decode, or one of the six
  fields is falsy (absent, \<^verbatim>\<open>null\<close>, \<^verbatim>\<open>false\<close>, zero or the empty string), or
  \<open>v\<close> is 1 and \<open>t\<close> or \<open>ts\<close> is not a number above zero. The checksum is not
  compared with anything: no condition mentions its value beyond its truthiness.
\<close>

theorem parseQRCode_outcomes:
  "(parseQRCode L s = Inr x \<longleftrightarrow>
      startsWith s ''parchi:'' \<and> decoded_body L s = Some x \<and> all_fields_truthy x \<and>
      js_get x ''v'' = Some (JNum 1) \<and> positive_number (js_get x ''t'') \<and>
      positive_number (js_get x ''ts'')) \<and>
   (parseQRCode L s = Inl UnsupportedQRVersion \<longleftrightarrow>
      startsWith s ''parchi:'' \<and>
      (\<exists>y. decoded_body L s = Some y \<and> all_fields_truthy y \<and> js_get y ''v'' \<noteq> Some (JNum 1))) \<and>
   ((\<exists>err. parseQRCode L s = Inl err \<and> is_MalformedPayload err) \<longleftrightarrow>
      \<not> startsWith s ''parchi:'' \<or> decoded_body L s = None \<or>
      (\<exists>y. decoded_body L s = Some y \<and>
           (\<not> all_fields_truthy y \<or>
            js_get y ''v'' = Some (JNum 1) \<and>
            (\<not> positive_number (js_get y ''t'') \<or> \<not> positive_number (js_get y ''ts'')))))"
  unfolding parseQRCode_unfold is_MalformedPayload_def
  by (auto split: option.splits)

theorem parseQRCode_outcomes_witness:
  "parseQRCode ref_lib
     ''parchi:eyJ2IjoxLCJlIjoiZXZ0X2FiYyIsInQiOjcsImEiOiJBYmMxMjM0NSIsInRzIjoxNzAwMDAwMDAwLCJjIjoiMDAwMCJ9'' =
     Inr (JObj [(''v'', JNum 1), (''e'', JStr ''evt_abc''), (''t'', JNum 7), (''a'', JStr ''Abc12345''),
                (''ts'', JNum 1700000000), (''c'', JStr ''0000'')]) \<and>
   calculateChecksum ref_lib ''evt_abc'' 7 ''Abc12345XYZ'' 1700000000 = ''b0f2'' \<and>
   parseQRCode ref_lib
     ''parchi:eyJ2IjoyLCJlIjoiZXZ0X2FiYyIsInQiOjcsImEiOiJBYmMxMjM0NSIsInRzIjoxNzAwMDAwMDAwLCJjIjoiYjBmMiJ9'' =
     Inl UnsupportedQRVersion"
proof -
  let ?s = "''parchi:eyJ2IjoxLCJlIjoiZXZ0X2FiYyIsInQiOjcsImEiOiJBYmMxMjM0NSIsInRzIjoxNzAwMDAwMDAwLCJjIjoiMDAwMCJ9''"
  let ?x = "JObj [(''v'', JNum 1), (''e'', JStr ''evt_abc''), (''t'', JNum 7), (''a'', JStr ''Abc12345''),
                (''ts'', JNum 1700000000), (''c'', JStr ''0000'')]"
  let ?s2 = "''parchi:eyJ2IjoyLCJlIjoiZXZ0X2FiYyIsInQiOjcsImEiOiJBYmMxMjM0NSIsInRzIjoxNzAwMDAwMDAwLCJjIjoiYjBmMiJ9''"
  let ?y = "JObj [(''v'', JNum 2), (''e'', JStr ''evt_abc''), (''t'', JNum 7), (''a'', JStr ''Abc12345''),
                (''ts'', JNum 1700000000), (''c'', JStr ''b0f2'')]"
  have 1: "startsWith ?s ''parchi:''" "startsWith ?s2 ''parchi:''"
    by (simp_all add: startsWith_def)
  have 2: "decoded_body ref_lib ?s = Some ?x"
    by code_simp
  have 3: "decoded_body ref_lib ?s2 = Some ?y"
    by code_simp
  have 4: "all_fields_truthy ?x" "all_fields_truthy ?y"
    by (simp_all add: all_fields_truthy_def)
  have 5: "positive_number (js_get ?x ''t'')" "positive_number (js_get ?x ''ts'')"
    by (simp_all add: positive_number_def)
  have "parseQRCode ref_lib ?s = Inr ?x"
    using parseQRCode_outcomes [of ref_lib ?s ?x] 1 2 4 5 by simp
  moreover have "parseQRCode ref_lib ?s2 = Inl UnsupportedQRVersion"
    using parseQRCode_outcomes [of ref_lib ?s2 ?y] 1 3 4 by simp
  ultimately show ?thesis
    by (simp add: checksum_example)
qed

text \<open>
  The claim as first stated fails twice. A ticket number of 1.5 is not a positive integer,
  and the payload decodes. A version of 0 is present and is not 1, and the error is the
  missing-fields error of the malformed class, not the version error.
\<close>

theorem parseQRCode_counterexample:
  "parseQRCode ref_lib
     ''parchi:eyJ2IjoxLCJlIjoiZXZ0X2FiYyIsInQiOjEuNSwiYSI6IkFiYzEyMzQ1IiwidHMiOjE3MDAwMDAwMDAsImMiOiJiMGYyIn0'' =
     Inr (JObj [(''v'', JNum 1), (''e'', JStr ''evt_abc''), (''t'', JNum (3 / 2)), (''a'', JStr ''Abc12345''),
                (''ts'', JNum 1700000000), (''c'', JStr ''b0f2'')]) \<and>
   (3 / 2 :: rat) \<notin> \<int> \<and>
   parseQRCode ref_lib
     ''parchi:eyJ2IjowLCJlIjoiZXZ0X2FiYyIsInQiOjcsImEiOiJBYmMxMjM0NSIsInRzIjoxNzAwMDAwMDAwLCJjIjoiYjBmMiJ9'' =
     Inl MalformedMissingFields"
proof -
  have "parseQRCode ref_lib
     ''parchi:eyJ2IjoxLCJlIjoiZXZ0X2FiYyIsInQiOjEuNSwiYSI6IkFiYzEyMzQ1IiwidHMiOjE3MDAwMDAwMDAsImMiOiJiMGYyIn0'' =
     Inr (JObj [(''v'', JNum 1), (''e'', JStr ''evt_abc''), (''t'', JNum (3 / 2)), (''a'', JStr ''Abc12345''),
                (''ts'', JNum 1700000000), (''c'', JStr ''b0f2'')])"
    by code_simp
  moreover have "parseQRCode ref_lib
     ''parchi:eyJ2IjowLCJlIjoiZXZ0X2FiYyIsInQiOjcsImEiOiJBYmMxMjM0NSIsInRzIjoxNzAwMDAwMDAwLCJjIjoiYjBmMiJ9'' =
     Inl MalformedMissingFields"
    by code_simp
  ultimately show ?thesis by simp
qed

section \<open>The verify handler\<close>

lemma updateMany_markUsed:
  "ticket_updateMany d (\<lambda>r. ticketId r = tid \<and> status r = ACTIVE)
      (\<lambda>r. r\<lparr>status := USED, usedAt := Some t\<rparr>) =
   (length (filter (\<lambda>r. ticketId r = tid \<and> status r = ACTIVE) (tickets d)), markUsed t tid d)"
  by (simp add: ticket_updateMany_def markUsed_def redeem_row_def [abs_def])

lemma count_zero_iff:
  "filter (\<lambda>r. ticketId r = tid \<and> status r = ACTIVE) (tickets d) = [] \<longleftrightarrow> \<not> has_active d tid"
  unfolding has_active_def filter_empty_conv by blast

lemma bex_set_map: "(\<exists>r \<in> set (map g xs). P r) \<longleftrightarrow> (\<exists>r \<in> set xs. P (g r))"
  by (induction xs) simp_all

lemma ball_set_map: "(\<forall>r \<in> set (map g xs). P r) \<longleftrightarrow> (\<forall>r \<in> set xs. P (g r))"
  by (induction xs) simp_all

lemma redeem_row_simps [simp]:
  "ticketId (redeem_row t tid r) = ticketId r"
  "eventId (redeem_row t tid r) = eventId r"
  "mintPubkey (redeem_row t tid r) = mintPubkey r"
  "status (redeem_row t tid r) = (if ticketId r = tid \<and> status r = ACTIVE then USED else status r)"
  by (simp_all add: redeem_row_def)

lemma redeem_row_idle: "\<not> (ticketId r = tid \<and> status r = ACTIVE) \<Longrightarrow> redeem_row t tid r = r"
  unfolding redeem_row_def by (rule if_not_P)

lemma markUsed_not_active: "\<not> has_active (markUsed t tid d) tid"
  by (simp add: has_active_def markUsed_def bex_set_map del: set_map)

lemma markUsed_idle: "\<not> has_active d tid \<Longrightarrow> markUsed t tid d = d"
proof -
  assume "\<not> has_active d tid"
  then have "map (redeem_row t tid) (tickets d) = tickets d"
    unfolding has_active_def by (intro map_idI redeem_row_idle) blast
  then show ?thesis by (simp add: markUsed_def)
qed

lemma tickets_markUsed: "tickets (markUsed t tid d) = map (redeem_row t tid) (tickets d)"
  by (simp add: markUsed_def)

lemma gv_markUsed [simp]: "gateVerifications (markUsed t tid d) = gateVerifications d"
  "events (markUsed t tid d) = events d"
  by (simp_all add: markUsed_def)

lemma gv_findUnique_markUsed [simp]: "gv_findUnique (markUsed t tid d) x = gv_findUnique d x"
  by (simp add: gv_findUnique_def)

lemma verify_tx_unresolved:
  assumes "\<not> str_truthy (vb_ticketId body)" "str_truthy (vb_verificationId body)"
    "gv_findUnique d (the (vb_verificationId body)) = None"
  shows "verify_tx L env d body = Inl verification_record_not_found"
  using assms by (simp add: verify_tx_def)

lemma verify_tx_resolved:
  assumes "str_truthy (vb_ticketId body) \<or> str_truthy (vb_verificationId body)"
    and "resolved_id d body = Some tid"
  shows "verify_tx L env d body =
    (if tid = [] then Inl could_not_resolve_ticket_id
     else if \<not> has_active d tid then Inl already_redeemed_or_invalid
     else if str_truthy (vb_verificationId body) then
       (case gv_findUnique d (the (vb_verificationId body)) of
          None \<Rightarrow> Inl verification_record_not_found
        | Some existing \<Rightarrow>
            if gv_ticketId existing \<noteq> tid then Inl verification_ticket_mismatch
            else Inr (\<lparr>vr_ticketId = tid, vr_verificationId = the (vb_verificationId body),
                       createdOrUpdated = updated\<rparr>,
                      gv_update (markUsed (clock_ms env) tid d) (the (vb_verificationId body))
                        (verified_data L env body existing)))
     else
       (case map_option eventId (ticket_findUnique (markUsed (clock_ms env) tid d) tid) of
          None \<Rightarrow> Inl prisma_error
        | Some ev \<Rightarrow>
            (case gv_create (markUsed (clock_ms env) tid d) (verified_row L env body ev tid) of
               None \<Rightarrow> Inl prisma_error
             | Some d2 \<Rightarrow>
                 Inr (\<lparr>vr_ticketId = tid, vr_verificationId = new_id env,
                       createdOrUpdated = created\<rparr>, d2))))"
proof (cases "str_truthy (vb_ticketId body)")
  case True
  then have "vb_ticketId body = Some tid" using assms(2) by (simp add: resolved_id_def)
  then show ?thesis
    using True
    by (simp add: verify_tx_def updateMany_markUsed count_zero_iff Let_def str_truthy_def
             split: option.split)
next
  case False
  then have v: "str_truthy (vb_verificationId body)" using assms(1) by simp
  then obtain g where "gv_findUnique d (the (vb_verificationId body)) = Some g" "gv_ticketId g = tid"
    using assms(2) False by (auto simp: resolved_id_def)
  then show ?thesis
    using False v
    by (simp add: verify_tx_def updateMany_markUsed count_zero_iff Let_def str_truthy_def
             split: option.split)
qed

lemma resolved_id_None:
  assumes "str_truthy (vb_ticketId body) \<or> str_truthy (vb_verificationId body)"
  shows "resolved_id d body = None \<longleftrightarrow>
         \<not> str_truthy (vb_ticketId body) \<and> gv_findUnique d (the (vb_verificationId body)) = None"
  using assms by (auto simp: resolved_id_def str_truthy_def split: option.splits)

lemma verify_POST_body:
  assumes "str_truthy (vb_ticketId body) \<or> str_truthy (vb_verificationId body)"
  shows "verify_POST L env d (Some body) =
     (case verify_tx L env d body of
        Inr (result, d') \<Rightarrow> (verified_and_used (vr_ticketId result) (vr_verificationId result), d')
      | Inl already_redeemed_or_invalid \<Rightarrow> (error_already_redeemed_or_invalid, d)
      | Inl verification_record_not_found \<Rightarrow> (error_verification_record_not_found, d)
      | Inl verification_ticket_mismatch \<Rightarrow> (error_verification_ticket_mismatch, d)
      | Inl could_not_resolve_ticket_id \<Rightarrow> (error_could_not_resolve_ticket_id, d)
      | Inl prisma_error \<Rightarrow> (error_server_error, d))"
  using assms by (auto simp: verify_POST_def)

lemma verify_POST_unresolved:
  assumes "str_truthy (vb_ticketId body) \<or> str_truthy (vb_verificationId body)"
    and "resolved_id d body = None"
  shows "verify_POST L env d (Some body) = (error_verification_record_not_found, d)"
proof -
  have "\<not> str_truthy (vb_ticketId body)" "gv_findUnique d (the (vb_verificationId body)) = None"
    using assms resolved_id_None by blast+
  moreover from this assms(1) have "str_truthy (vb_verificationId body)" by simp
  ultimately show ?thesis
    by (simp add: verify_POST_body [OF assms(1)] verify_tx_unresolved)
qed

lemma verify_POST_not_active:
  assumes "str_truthy (vb_ticketId body) \<or> str_truthy (vb_verificationId body)"
    and "resolved_id d body = Some tid" "tid \<noteq> []" "\<not> has_active d tid"
  shows "verify_POST L env d (Some body) = (error_already_redeemed_or_invalid, d)"
  using assms(2-) by (simp add: verify_POST_body [OF assms(1)] verify_tx_resolved [OF assms(1,2)])

lemma verify_POST_update:
  assumes "str_truthy (vb_ticketId body) \<or> str_truthy (vb_verificationId body)"
    and "resolved_id d body = Some tid" "tid \<noteq> []" "has_active d tid"
    and "str_truthy (vb_verificationId body)"
    and "gv_findUnique d (the (vb_verificationId body)) = Some existing"
  shows "verify_POST L env d (Some body) =
     (if gv_ticketId existing \<noteq> tid then (error_verification_ticket_mismatch, d)
      else (verified_and_used tid (the (vb_verificationId body)),
            gv_update (markUsed (clock_ms env) tid d) (the (vb_verificationId body))
              (verified_data L env body existing)))"
  using assms(2-) by (simp add: verify_POST_body [OF assms(1)] verify_tx_resolved [OF assms(1,2)])

lemma verify_POST_missing_record:
  assumes "str_truthy (vb_ticketId body) \<or> str_truthy (vb_verificationId body)"
    and "resolved_id d body = Some tid" "tid \<noteq> []" "has_active d tid"
    and "str_truthy (vb_verificationId body)"
    and "gv_findUnique d (the (vb_verificationId body)) = None"
  shows "verify_POST L env d (Some body) = (error_verification_record_not_found, d)"
  using assms(2-) by (simp add: verify_POST_body [OF assms(1)] verify_tx_resolved [OF assms(1,2)])

lemma verify_POST_create:
  assumes "str_truthy (vb_ticketId body) \<or> str_truthy (vb_verificationId body)"
    and "resolved_id d body = Some tid" "tid \<noteq> []" "has_active d tid"
    and "\<not> str_truthy (vb_verificationId body)"
  shows "verify_POST L env d (Some body) =
     (case map_option eventId (ticket_findUnique (markUsed (clock_ms env) tid d) tid) of
        None \<Rightarrow> (error_server_error, d)
      | Some ev \<Rightarrow>
          (case gv_create (markUsed (clock_ms env) tid d) (verified_row L env body ev tid) of
             None \<Rightarrow> (error_server_error, d)
           | Some d2 \<Rightarrow> (verified_and_used tid (new_id env), d2)))"
  using assms(2-)
  by (simp add: verify_POST_body [OF assms(1)] verify_tx_resolved [OF assms(1,2)] split: option.split)

lemma find_map_keyed:
  assumes "\<And>g. key (f g) = key g"
  shows "find (\<lambda>g. key g = x) (map (\<lambda>g. if key g = v then f g else g) gs) =
         map_option (\<lambda>g. if key g = v then f g else g) (find (\<lambda>g. key g = x) gs)"
  by (induction gs) (simp_all add: assms)

lemma verified_data_simps [simp]:
  "verificationId (verified_data L env body existing g) = verificationId g"
  "gv_ticketId (verified_data L env body existing g) = gv_ticketId g"
  "gv_status (verified_data L env body existing g) = VERIFIED"
  by (simp_all add: verified_data_def)

lemma verified_row_simps [simp]:
  "verificationId (verified_row L env body ev tid) = new_id env"
  "gv_ticketId (verified_row L env body ev tid) = tid"
  "gv_eventId (verified_row L env body ev tid) = ev"
  "gv_status (verified_row L env body ev tid) = VERIFIED"
  by (simp_all add: verified_row_def)

lemma gv_update_simps [simp]:
  "tickets (gv_update d v f) = tickets d"
  "events (gv_update d v f) = events d"
  "gateVerifications (gv_update d v f) =
     map (\<lambda>g. if verificationId g = v then f g else g) (gateVerifications d)"
  by (simp_all add: gv_update_def)

lemma has_active_cong: "tickets d' = tickets d \<Longrightarrow> has_active d' tid = has_active d tid"
  by (simp add: has_active_def)

lemma gv_ticketId_after_update:
  "map_option gv_ticketId (gv_findUnique (gv_update d v (verified_data L env body existing)) x) =
   map_option gv_ticketId (gv_findUnique d x)"
proof -
  have "gv_findUnique (gv_update d v (verified_data L env body existing)) x =
        map_option (\<lambda>g. if verificationId g = v then verified_data L env body existing g else g)
          (gv_findUnique d x)"
    unfolding gv_findUnique_def gv_update_simps
    by (rule find_map_keyed) simp
  then show ?thesis
    by (cases "gv_findUnique d x") simp_all
qed

lemma resolved_id_after_update:
  "resolved_id (gv_update (markUsed t tid d) v (verified_data L env body existing)) body' =
   resolved_id d body'"
  unfolding resolved_id_def gv_ticketId_after_update by simp

lemma verify_POST_success_cases:
  assumes "verify_POST L env d (Some body) = (verified_and_used tid vid, d1)"
  obtains (by_update) existing where
      "str_truthy (vb_verificationId body)" "vid = the (vb_verificationId body)"
      "resolved_id d body = Some tid" "tid \<noteq> []" "has_active d tid"
      "gv_findUnique d vid = Some existing" "gv_ticketId existing = tid"
      "d1 = gv_update (markUsed (clock_ms env) tid d) vid (verified_data L env body existing)"
  | (by_create) ev where
      "\<not> str_truthy (vb_verificationId body)" "vid = new_id env"
      "resolved_id d body = Some tid" "tid \<noteq> []" "has_active d tid"
      "map_option eventId (ticket_findUnique (markUsed (clock_ms env) tid d) tid) = Some ev"
      "gv_create (markUsed (clock_ms env) tid d) (verified_row L env body ev tid) = Some d1"
proof -
  have one: "str_truthy (vb_ticketId body) \<or> str_truthy (vb_verificationId body)"
    using assms by (auto simp: verify_POST_def split: if_splits)
  show thesis
  proof (cases "resolved_id d body")
    case None
    then show thesis using assms verify_POST_unresolved [OF one None] by simp
  next
    case (Some t)
    note r = this
    show thesis
    proof (cases "t = []")
      case True
      then show thesis
        using assms by (simp add: verify_POST_body [OF one] verify_tx_resolved [OF one r])
    next
      case ne: False
      show thesis
      proof (cases "has_active d t")
        case False
        then show thesis using assms verify_POST_not_active [OF one r ne] by simp
      next
        case act: True
        show thesis
        proof (cases "str_truthy (vb_verificationId body)")
          case v: True
          show thesis
          proof (cases "gv_findUnique d (the (vb_verificationId body))")
            case None
            then show thesis using assms verify_POST_missing_record [OF one r ne act v] by simp
          next
            case (Some existing)
            from assms verify_POST_update [OF one r ne act v Some, of L env]
            have "gv_ticketId existing = t" "tid = t" "vid = the (vb_verificationId body)"
              "d1 = gv_update (markUsed (clock_ms env) t d) (the (vb_verificationId body))
                      (verified_data L env body existing)"
              by (auto split: if_splits)
            then show thesis using by_update [of existing] v r ne act Some by simp
          qed
        next
          case v: False
          from assms verify_POST_create [OF one r ne act v, of L env]
          obtain ev where "map_option eventId (ticket_findUnique (markUsed (clock_ms env) t d) t) = Some ev"
            "gv_create (markUsed (clock_ms env) t d) (verified_row L env body ev t) = Some d1"
            "tid = t" "vid = new_id env"
            by (auto split: option.splits)
          then show thesis using by_create [of ev] v r ne act by simp
        qed
      qed
    qed
  qed
qed

lemma first_verify_example:
  "verify_POST ref_lib example_env example_db (Some (request_by None (Some ''gv-1''))) =
     (verified_and_used ''ticket-7'' ''gv-1'',
      gv_update (markUsed 1700000060000 ''ticket-7'' example_db) ''gv-1''
        (verified_data ref_lib example_env (request_by None (Some ''gv-1'')) example_pending))"
proof -
  let ?body = "request_by None (Some ''gv-1'')"
  have one: "str_truthy (vb_ticketId ?body) \<or> str_truthy (vb_verificationId ?body)"
    by (simp add: request_by_def str_truthy_def)
  have f: "gv_findUnique example_db (the (vb_verificationId ?body)) = Some example_pending"
    by (simp add: gv_findUnique_def example_db_def request_by_def example_pending_def)
  have r: "resolved_id example_db ?body = Some ''ticket-7''"
    unfolding resolved_id_def f by (simp add: request_by_def str_truthy_def example_pending_def)
  have a: "has_active example_db ''ticket-7''"
    by (simp add: has_active_def example_db_def example_ticket_def)
  have v: "str_truthy (vb_verificationId ?body)"
    by (simp add: request_by_def str_truthy_def)
  show ?thesis
    using verify_POST_update [OF one r _ a v f, of ref_lib example_env]
    by (simp add: example_pending_def example_env_def request_by_def)
qed

lemma find_map_id:
  assumes "\<And>r. key (f r) = key r"
  shows "find (\<lambda>r. key r = x) (map f rs) = map_option f (find (\<lambda>r. key r = x) rs)"
  by (induction rs) (simp_all add: assms)

lemma ticket_findUnique_markUsed:
  "ticket_findUnique (markUsed t tid d) x = map_option (redeem_row t tid) (ticket_findUnique d x)"
  unfolding ticket_findUnique_def tickets_markUsed
  by (rule find_map_id) simp

lemma find_None_iff_key: "find (\<lambda>r. key r = x) rs = None \<longleftrightarrow> x \<notin> set (map key rs)"
  by (induction rs) auto

lemma has_active_found:
  assumes "has_active d tid"
  obtains r where "ticket_findUnique d tid = Some r" "ticketId r = tid" "r \<in> set (tickets d)"
proof -
  from assms have "tid \<in> set (map ticketId (tickets d))"
    unfolding has_active_def by (simp add: image_iff) blast
  then have "ticket_findUnique d tid \<noteq> None"
    unfolding ticket_findUnique_def by (simp add: find_None_iff_key)
  then obtain r where r: "ticket_findUnique d tid = Some r" by blast
  then have "ticketId r = tid" "r \<in> set (tickets d)"
    unfolding ticket_findUnique_def by (auto simp: find_Some_iff)
  with r show thesis using that by blast
qed

lemma verify_POST_create_ok:
  assumes one: "str_truthy (vb_ticketId body) \<or> str_truthy (vb_verificationId body)"
    and r: "resolved_id d body = Some tid" and ne: "tid \<noteq> []" and act: "has_active d tid"
    and v: "\<not> str_truthy (vb_verificationId body)"
    and fresh: "new_id env \<notin> set (map verificationId (gateVerifications d))"
    and fk: "foreign_keys d"
  obtains ev where "ev \<in> set (events d)"
    "verify_POST L env d (Some body) =
       (verified_and_used tid (new_id env),
        (markUsed (clock_ms env) tid d)
          \<lparr>gateVerifications := gateVerifications d @ [verified_row L env body ev tid]\<rparr>)"
proof -
  from act obtain row where row: "ticket_findUnique d tid = Some row" "ticketId row = tid"
    "row \<in> set (tickets d)"
    by (rule has_active_found)
  have ev: "eventId row \<in> set (events d)"
    using fk row(3) by (simp add: foreign_keys_def)
  have found: "map_option eventId (ticket_findUnique (markUsed (clock_ms env) tid d) tid) = Some (eventId row)"
    by (simp add: ticket_findUnique_markUsed row(1))
  have ids: "tid \<in> set (map ticketId (tickets (markUsed (clock_ms env) tid d)))"
    using row(2,3) by (simp add: tickets_markUsed image_iff comp_def) blast
  have "gv_create (markUsed (clock_ms env) tid d) (verified_row L env body (eventId row) tid) =
          Some ((markUsed (clock_ms env) tid d)
                  \<lparr>gateVerifications := gateVerifications d @ [verified_row L env body (eventId row) tid]\<rparr>)"
    using fresh ev ids unfolding gv_create_def by simp
  then have "verify_POST L env d (Some body) =
       (verified_and_used tid (new_id env),
        (markUsed (clock_ms env) tid d)
          \<lparr>gateVerifications := gateVerifications d @ [verified_row L env body (eventId row) tid]\<rparr>)"
    by (simp add: verify_POST_create [OF one r ne act v] found)
  with ev show thesis using that by blast
qed

lemma distinct_key_eq:
  assumes "distinct (map key xs)" "a \<in> set xs" "b \<in> set xs" "key a = key b"
  shows "a = b"
  using assms by (meson distinct_map inj_on_def)

lemma redeem_used:
  assumes pk: "distinct (map ticketId ts)"
    and act: "a \<in> set ts" "ticketId a = tid" "status a = ACTIVE"
    and r: "r \<in> set ts" "ticketId r = tid"
  shows "status (redeem_row t tid r) = USED"
proof -
  have "r = a" using distinct_key_eq [OF pk r(1) act(1)] r(2) act(2) by simp
  then show ?thesis using act by simp
qed

lemma consistent_step:
  assumes pk: "distinct (map ticketId ts)"
    and inv1: "\<forall>r \<in> set ts. status r = USED \<longrightarrow>
                 (\<exists>g \<in> set gs. gv_ticketId g = ticketId r \<and> gv_status g = VERIFIED)"
    and inv2: "\<forall>g \<in> set gs. gv_status g = VERIFIED \<longrightarrow>
                 (\<forall>r \<in> set ts. ticketId r = gv_ticketId g \<longrightarrow> status r = USED)"
    and act: "a \<in> set ts" "ticketId a = tid" "status a = ACTIVE"
    and origin: "\<And>g'. g' \<in> set gs' \<Longrightarrow> gv_status g' = VERIFIED \<Longrightarrow>
                   gv_ticketId g' = tid \<or>
                   (\<exists>g \<in> set gs. gv_ticketId g = gv_ticketId g' \<and> gv_status g = VERIFIED)"
    and keep: "\<And>g. g \<in> set gs \<Longrightarrow> gv_status g = VERIFIED \<Longrightarrow>
                   \<exists>g' \<in> set gs'. gv_ticketId g' = gv_ticketId g \<and> gv_status g' = VERIFIED"
    and new: "\<exists>g' \<in> set gs'. gv_ticketId g' = tid \<and> gv_status g' = VERIFIED"
  shows "(\<forall>r \<in> set ts. status (redeem_row t tid r) = USED \<longrightarrow>
            (\<exists>g \<in> set gs'. gv_ticketId g = ticketId r \<and> gv_status g = VERIFIED)) \<and>
         (\<forall>g \<in> set gs'. gv_status g = VERIFIED \<longrightarrow>
            (\<forall>r \<in> set ts. ticketId r = gv_ticketId g \<longrightarrow> status (redeem_row t tid r) = USED))"
proof (intro conjI ballI impI)
  fix r assume r: "r \<in> set ts" and u: "status (redeem_row t tid r) = USED"
  show "\<exists>g \<in> set gs'. gv_ticketId g = ticketId r \<and> gv_status g = VERIFIED"
  proof (cases "ticketId r = tid \<and> status r = ACTIVE")
    case True
    then show ?thesis using new by simp
  next
    case False
    then have "status r = USED" using u by (simp split: if_splits)
    then obtain g where "g \<in> set gs" "gv_ticketId g = ticketId r" "gv_status g = VERIFIED"
      using inv1 r by blast
    then show ?thesis using keep [of g] by metis
  qed
next
  fix g' r assume g': "g' \<in> set gs'" "gv_status g' = VERIFIED"
    and r: "r \<in> set ts" "ticketId r = gv_ticketId g'"
  from origin [OF g'] show "status (redeem_row t tid r) = USED"
  proof
    assume "gv_ticketId g' = tid"
    then show ?thesis using redeem_used [OF pk act r(1)] r(2) by simp
  next
    assume "\<exists>g \<in> set gs. gv_ticketId g = gv_ticketId g' \<and> gv_status g = VERIFIED"
    then obtain g where "g \<in> set gs" "gv_ticketId g = gv_ticketId g'" "gv_status g = VERIFIED"
      by blast
    then have "status r = USED" using inv2 r by metis
    then show ?thesis by simp
  qed
qed

lemma consistent_markUsed:
  assumes pk: "distinct (map ticketId (tickets d))"
    and inv: "consistent d"
    and act: "has_active d tid"
    and origin: "\<And>g'. g' \<in> set gs' \<Longrightarrow> gv_status g' = VERIFIED \<Longrightarrow>
                   gv_ticketId g' = tid \<or>
                   (\<exists>g \<in> set (gateVerifications d). gv_ticketId g = gv_ticketId g' \<and> gv_status g = VERIFIED)"
    and keep: "\<And>g. g \<in> set (gateVerifications d) \<Longrightarrow> gv_status g = VERIFIED \<Longrightarrow>
                   \<exists>g' \<in> set gs'. gv_ticketId g' = gv_ticketId g \<and> gv_status g' = VERIFIED"
    and new: "\<exists>g' \<in> set gs'. gv_ticketId g' = tid \<and> gv_status g' = VERIFIED"
    and d': "tickets d' = map (redeem_row t tid) (tickets d)" "gateVerifications d' = gs'"
  shows "consistent d'"
proof -
  from act obtain a where a: "a \<in> set (tickets d)" "ticketId a = tid" "status a = ACTIVE"
    unfolding has_active_def by blast
  have inv1: "\<forall>r \<in> set (tickets d). status r = USED \<longrightarrow>
                 (\<exists>g \<in> set (gateVerifications d). gv_ticketId g = ticketId r \<and> gv_status g = VERIFIED)"
    using inv unfolding consistent_def used_has_verified_def by (rule conjunct1)
  have inv2: "\<forall>g \<in> set (gateVerifications d). gv_status g = VERIFIED \<longrightarrow>
                 (\<forall>r \<in> set (tickets d). ticketId r = gv_ticketId g \<longrightarrow> status r = USED)"
    using inv unfolding consistent_def verified_has_used_def by (rule conjunct2)
  note step = consistent_step [OF pk inv1 inv2 a origin keep new, of t]
  have "used_has_verified d'"
    unfolding used_has_verified_def d' ball_set_map redeem_row_simps(1)
    by (rule step [THEN conjunct1])
  moreover have "verified_has_used d'"
    unfolding verified_has_used_def d' ball_set_map redeem_row_simps(1)
    by (rule step [THEN conjunct2])
  ultimately show ?thesis by (simp add: consistent_def)
qed

lemma verify_POST_failure:
  assumes "verify_POST L env d request = (response, d')"
    and "\<And>tid vid. response \<noteq> verified_and_used tid vid"
  shows "d' = d"
proof (cases request)
  case None
  then show ?thesis using assms(1) by (simp add: verify_POST_def)
next
  case (Some body)
  show ?thesis
  proof (cases "str_truthy (vb_ticketId body) \<or> str_truthy (vb_verificationId body)")
    case False
    then show ?thesis using assms(1) Some by (simp add: verify_POST_def)
  next
    case True
    show ?thesis
    proof (cases "verify_tx L env d body")
      case (Inl err)
      then show ?thesis
        using assms(1) Some by (cases err) (simp_all add: verify_POST_body [OF True])
    next
      case (Inr res)
      then have "response = verified_and_used (vr_ticketId (fst res)) (vr_verificationId (fst res))"
        using assms(1) Some by (cases res) (simp add: verify_POST_body [OF True])
      then show ?thesis using assms(2) by simp
    qed
  qed
qed

lemma gv_create_Some:
  assumes "gv_create d g = Some d'"
  shows "d' = d\<lparr>gateVerifications := gateVerifications d @ [g]\<rparr>"
    and "verificationId g \<notin> set (map verificationId (gateVerifications d))"
  using assms by (simp_all add: gv_create_def split: if_splits)

lemma map_key_update:
  assumes "\<And>g. key (f g) = key g"
  shows "map key (map (\<lambda>g. if P g then f g else g) gs) = map key gs"
  by (induction gs) (simp_all add: assms)

lemma find_Some_key:
  assumes "find (\<lambda>g. key g = x) gs = Some g"
  shows "g \<in> set gs" "key g = x"
  using assms by (auto simp: find_Some_iff)

lemma in_set_map_update:
  assumes "g \<in> set gs"
  shows "(if P g then f g else g) \<in> set (map (\<lambda>g. if P g then f g else g) gs)"
proof -
  have "\<And>h. h g \<in> set (map h gs)" using assms by simp
  from this [of "\<lambda>g. if P g then f g else g"] show ?thesis .
qed

lemma set_map_update_cases:
  assumes "g' \<in> set (map (\<lambda>g. if P g then f g else g) gs)"
  obtains g where "g \<in> set gs" "P g" "g' = f g" | "g' \<in> set gs" "\<not> P g'"
proof -
  from assms obtain g where g: "g \<in> set gs" "g' = (if P g then f g else g)"
    unfolding set_map by (rule imageE)
  show thesis
  proof (cases "P g")
    case True
    then show thesis using g that(1) by simp
  next
    case False
    then show thesis using g that(2) by simp
  qed
qed

lemma verify_update_preserves:
  assumes pk: "primary_keys d" and inv: "consistent d" and act: "has_active d tid"
    and found: "gv_findUnique d vid = Some existing" and own: "gv_ticketId existing = tid"
    and d': "d' = gv_update (markUsed t tid d) vid (verified_data L env body existing)"
  shows "primary_keys d' \<and> consistent d'"
proof -
  let ?h = "\<lambda>g. if verificationId g = vid then verified_data L env body existing g else g"
  have ex: "existing \<in> set (gateVerifications d)" "verificationId existing = vid"
    using find_Some_key [OF found [unfolded gv_findUnique_def]] by simp_all
  have gs': "gateVerifications d' = map ?h (gateVerifications d)"
    and ts': "tickets d' = map (redeem_row t tid) (tickets d)"
    by (simp_all add: d' tickets_markUsed)
  have "map ticketId (tickets d') = map ticketId (tickets d)"
    by (simp add: ts' comp_def)
  moreover have "map verificationId (gateVerifications d') = map verificationId (gateVerifications d)"
    unfolding gs' by (rule map_key_update) simp
  ultimately have pk': "primary_keys d'"
    using pk by (simp add: primary_keys_def)
  have "consistent d'"
  proof (rule consistent_markUsed [OF _ inv act _ _ _ ts' gs'])
    show "distinct (map ticketId (tickets d))" using pk by (simp add: primary_keys_def)
  next
    fix g' assume g': "g' \<in> set (map ?h (gateVerifications d))" "gv_status g' = VERIFIED"
    from g'(1) show "gv_ticketId g' = tid \<or>
        (\<exists>g \<in> set (gateVerifications d). gv_ticketId g = gv_ticketId g' \<and> gv_status g = VERIFIED)"
    proof (cases rule: set_map_update_cases)
      case (1 g)
      have "g = existing"
        using distinct_key_eq [of verificationId "gateVerifications d" g existing] pk 1 ex
        by (simp add: primary_keys_def)
      then show ?thesis using 1 own by simp
    next
      case 2
      then show ?thesis using g'(2) by blast
    qed
  next
    fix g assume g: "g \<in> set (gateVerifications d)" "gv_status g = VERIFIED"
    have "?h g \<in> set (map ?h (gateVerifications d))"
      using g(1) by (rule in_set_map_update)
    moreover have "gv_ticketId (?h g) = gv_ticketId g" "gv_status (?h g) = VERIFIED"
      using g(2) by simp_all
    ultimately show "\<exists>g' \<in> set (map ?h (gateVerifications d)).
        gv_ticketId g' = gv_ticketId g \<and> gv_status g' = VERIFIED"
      by blast
  next
    have "?h existing \<in> set (map ?h (gateVerifications d))"
      using ex(1) by (rule in_set_map_update)
    moreover have "gv_ticketId (?h existing) = tid" "gv_status (?h existing) = VERIFIED"
      using own ex(2) by simp_all
    ultimately show "\<exists>g' \<in> set (map ?h (gateVerifications d)). gv_ticketId g' = tid \<and> gv_status g' = VERIFIED"
      by blast
  qed
  with pk' show ?thesis ..
qed

lemma verify_create_preserves:
  assumes pk: "primary_keys d" and inv: "consistent d" and act: "has_active d tid"
    and cr: "gv_create (markUsed t tid d) (verified_row L env body ev tid) = Some d'"
  shows "primary_keys d' \<and> consistent d'"
proof -
  let ?row = "verified_row L env body ev tid"
  note c = gv_create_Some [OF cr]
  have gs': "gateVerifications d' = gateVerifications d @ [?row]"
    and ts': "tickets d' = map (redeem_row t tid) (tickets d)"
    by (simp_all add: c(1) tickets_markUsed)
  have fresh: "new_id env \<notin> set (map verificationId (gateVerifications d))"
    using c(2) by simp
  have "map ticketId (tickets d') = map ticketId (tickets d)"
    by (simp add: ts' comp_def)
  then have pk': "primary_keys d'"
    using pk fresh by (simp add: primary_keys_def gs')
  have "consistent d'"
  proof (rule consistent_markUsed [OF _ inv act _ _ _ ts' gs'])
    show "distinct (map ticketId (tickets d))" using pk by (simp add: primary_keys_def)
  next
    fix g' assume g': "g' \<in> set (gateVerifications d @ [?row])" "gv_status g' = VERIFIED"
    then have "g' = ?row \<or> g' \<in> set (gateVerifications d)" by simp
    then show "gv_ticketId g' = tid \<or>
        (\<exists>g \<in> set (gateVerifications d). gv_ticketId g = gv_ticketId g' \<and> gv_status g = VERIFIED)"
    proof
      assume "g' = ?row" then show ?thesis by simp
    next
      assume "g' \<in> set (gateVerifications d)" then show ?thesis using g'(2) by blast
    qed
  next
    fix g assume g: "g \<in> set (gateVerifications d)" "gv_status g = VERIFIED"
    then have "g \<in> set (gateVerifications d @ [?row])" by simp
    then show "\<exists>g' \<in> set (gateVerifications d @ [?row]).
        gv_ticketId g' = gv_ticketId g \<and> gv_status g' = VERIFIED"
      using g(2) by blast
  next
    have "?row \<in> set (gateVerifications d @ [?row])" by simp
    moreover have "gv_ticketId ?row = tid" "gv_status ?row = VERIFIED" by simp_all
    ultimately show "\<exists>g' \<in> set (gateVerifications d @ [?row]). gv_ticketId g' = tid \<and> gv_status g' = VERIFIED"
      by blast
  qed
  with pk' show ?thesis ..
qed

lemma verify_calls_rejected:
  assumes "\<not> has_active d tid" "tid \<noteq> []"
    and "\<forall>c \<in> set cs. (str_truthy (vb_ticketId (snd c)) \<or> str_truthy (vb_verificationId (snd c))) \<and>
                        resolved_id d (snd c) = Some tid"
  shows "verify_calls L d cs = (replicate (length cs) error_already_redeemed_or_invalid, d)"
  using assms(3)
proof (induction cs)
  case Nil
  then show ?case by simp
next
  case (Cons c cs)
  then have c: "str_truthy (vb_ticketId (snd c)) \<or> str_truthy (vb_verificationId (snd c))"
    "resolved_id d (snd c) = Some tid"
    by simp_all
  have "verify_POST L (fst c) d (Some (snd c)) = (error_already_redeemed_or_invalid, d)"
    by (rule verify_POST_not_active [OF c assms(2,1)])
  moreover have "verify_calls L d cs = (replicate (length cs) error_already_redeemed_or_invalid, d)"
    using Cons by simp
  ultimately show ?case by simp
qed

lemma find_append_Some: "find P xs = Some x \<Longrightarrow> find P (xs @ ys) = Some x"
  by (induction xs) (simp_all split: if_splits)

lemma resolved_id_after_create:
  assumes "targets d tid body"
    and "gateVerifications d1 = gateVerifications d @ [row]"
  shows "resolved_id d1 body = Some tid"
proof (cases "str_truthy (vb_ticketId body)")
  case True
  then show ?thesis using assms(1) by (simp add: targets_def resolved_id_def)
next
  case False
  then have v: "str_truthy (vb_verificationId body)"
    and f: "map_option gv_ticketId (gv_findUnique d (the (vb_verificationId body))) = Some tid"
    using assms(1) by (simp_all add: targets_def)
  then obtain g where g: "gv_findUnique d (the (vb_verificationId body)) = Some g" "gv_ticketId g = tid"
    by auto
  have "gv_findUnique d1 (the (vb_verificationId body)) = Some g"
    using g(1) by (simp add: gv_findUnique_def assms(2) find_append_Some)
  then show ?thesis using False v g(2) by (simp add: resolved_id_def)
qed

lemma example_db_consistent: "primary_keys example_db" "consistent example_db"
  by code_simp+

text \<open>
  Claim C1 (at most once). Take a ticket whose persisted status is \<open>ACTIVE\<close> and any
  non-empty list of verify calls that target it, in the order in which the store lets
  their transactions take effect; the ids the database generates for new rows are not
  ids of existing rows, and the ticket's event exists. Then the first call answers with
  success for this ticket, every other call answers \<open>already_redeemed_or_invalid\<close>,
  and no row of the ticket is \<open>ACTIVE\<close> afterwards. The transition is the single
  conditional update \<open>markUsed\<close>: it changes a row only when the row is \<open>ACTIVE\<close>, and
  a call that finds no such row fails with \<open>already_redeemed_or_invalid\<close>.
\<close>

theorem verify_at_most_once:
  assumes active: "has_active d tid" and nonempty: "tid \<noteq> []"
    and fk: "foreign_keys d"
    and some: "calls \<noteq> []"
    and calls: "\<forall>c \<in> set calls. targets d tid (snd c) \<and>
                  new_id (fst c) \<notin> set (map verificationId (gateVerifications d))"
  shows "(\<exists>vid. fst (verify_calls L d calls) =
            verified_and_used tid vid # replicate (length calls - 1) error_already_redeemed_or_invalid) \<and>
         \<not> has_active (snd (verify_calls L d calls)) tid"
proof -
  obtain c cs where split: "calls = c # cs" using some by (cases calls) simp_all
  have t: "targets d tid (snd c)"
    and fresh: "new_id (fst c) \<notin> set (map verificationId (gateVerifications d))"
    and rest: "\<forall>c' \<in> set cs. targets d tid (snd c')"
    using calls by (simp_all add: split)
  have one: "str_truthy (vb_ticketId (snd c)) \<or> str_truthy (vb_verificationId (snd c))"
    and r: "resolved_id d (snd c) = Some tid"
    using t by (simp_all add: targets_def)
  have "\<exists>vid d1. verify_POST L (fst c) d (Some (snd c)) = (verified_and_used tid vid, d1) \<and>
          \<not> has_active d1 tid \<and>
          (\<forall>c' \<in> set cs. (str_truthy (vb_ticketId (snd c')) \<or> str_truthy (vb_verificationId (snd c'))) \<and>
                            resolved_id d1 (snd c') = Some tid)"
  proof (cases "str_truthy (vb_verificationId (snd c))")
    case True
    then obtain existing where e: "gv_findUnique d (the (vb_verificationId (snd c))) = Some existing"
      "gv_ticketId existing = tid"
      using t by (auto simp: targets_def)
    let ?d1 = "gv_update (markUsed (clock_ms (fst c)) tid d) (the (vb_verificationId (snd c)))
                 (verified_data L (fst c) (snd c) existing)"
    have "verify_POST L (fst c) d (Some (snd c)) =
            (verified_and_used tid (the (vb_verificationId (snd c))), ?d1)"
      using verify_POST_update [OF one r nonempty active True e(1), of L "fst c"] e(2) by simp
    moreover have "\<not> has_active ?d1 tid"
      using markUsed_not_active [of "clock_ms (fst c)" tid d] by (simp add: has_active_def)
    moreover have "\<forall>c' \<in> set cs. (str_truthy (vb_ticketId (snd c')) \<or> str_truthy (vb_verificationId (snd c'))) \<and>
                            resolved_id ?d1 (snd c') = Some tid"
      using rest by (simp add: resolved_id_after_update targets_def)
    ultimately show ?thesis by (intro exI conjI)
  next
    case False
    obtain ev where "verify_POST L (fst c) d (Some (snd c)) =
       (verified_and_used tid (new_id (fst c)),
        (markUsed (clock_ms (fst c)) tid d)
          \<lparr>gateVerifications := gateVerifications d @ [verified_row L (fst c) (snd c) ev tid]\<rparr>)"
      using verify_POST_create_ok [OF one r nonempty active False fresh fk, of L] by blast
    moreover
    let ?d1 = "(markUsed (clock_ms (fst c)) tid d)
          \<lparr>gateVerifications := gateVerifications d @ [verified_row L (fst c) (snd c) ev tid]\<rparr>"
    have "\<not> has_active ?d1 tid"
      using markUsed_not_active [of "clock_ms (fst c)" tid d] by (simp add: has_active_def)
    moreover have "\<forall>c' \<in> set cs. (str_truthy (vb_ticketId (snd c')) \<or> str_truthy (vb_verificationId (snd c'))) \<and>
                            resolved_id ?d1 (snd c') = Some tid"
    proof
      fix c' assume "c' \<in> set cs"
      then have t': "targets d tid (snd c')" using rest by simp
      have "resolved_id ?d1 (snd c') = Some tid"
        by (rule resolved_id_after_create [OF t']) simp
      then show "(str_truthy (vb_ticketId (snd c')) \<or> str_truthy (vb_verificationId (snd c'))) \<and>
                            resolved_id ?d1 (snd c') = Some tid"
        using t' by (simp add: targets_def)
    qed
    ultimately show ?thesis by (intro exI conjI)
  qed
  then obtain vid d1 where first: "verify_POST L (fst c) d (Some (snd c)) = (verified_and_used tid vid, d1)"
    and inactive: "\<not> has_active d1 tid"
    and later: "\<forall>c' \<in> set cs. (str_truthy (vb_ticketId (snd c')) \<or> str_truthy (vb_verificationId (snd c'))) \<and>
                            resolved_id d1 (snd c') = Some tid"
    by blast
  have "verify_calls L d1 cs = (replicate (length cs) error_already_redeemed_or_invalid, d1)"
    by (rule verify_calls_rejected [OF inactive nonempty later])
  then have "verify_calls L d calls =
      (verified_and_used tid vid # replicate (length cs) error_already_redeemed_or_invalid, d1)"
    using first by (simp add: split)
  then show ?thesis using inactive by (simp add: split)
qed

theorem verify_at_most_once_witness:
  "has_active example_db ''ticket-7'' \<and> foreign_keys example_db \<and>
   targets example_db ''ticket-7'' (request_by (Some ''ticket-7'') None) \<and>
   targets example_db ''ticket-7'' (request_by None (Some ''gv-1'')) \<and>
   targets example_db ''ticket-7'' (request_by (Some ''ticket-7'') (Some ''gv-1'')) \<and>
   fst (verify_calls ref_lib example_db example_calls) =
     [verified_and_used ''ticket-7'' ''gv-3'', error_already_redeemed_or_invalid,
      error_already_redeemed_or_invalid] \<and>
   \<not> has_active (snd (verify_calls ref_lib example_db example_calls)) ''ticket-7''"
proof -
  have a: "has_active example_db ''ticket-7''" by code_simp
  have n: "''ticket-7'' \<noteq> []" by simp
  have fk: "foreign_keys example_db" by code_simp
  have s: "example_calls \<noteq> []" by (simp add: example_calls_def)
  have t: "targets example_db ''ticket-7'' (request_by (Some ''ticket-7'') None)"
    "targets example_db ''ticket-7'' (request_by None (Some ''gv-1''))"
    "targets example_db ''ticket-7'' (request_by (Some ''ticket-7'') (Some ''gv-1''))"
    by code_simp+
  have f: "new_id example_env \<notin> set (map verificationId (gateVerifications example_db))"
    "new_id later_env \<notin> set (map verificationId (gateVerifications example_db))"
    by code_simp+
  have c: "\<forall>c \<in> set example_calls. targets example_db ''ticket-7'' (snd c) \<and>
                  new_id (fst c) \<notin> set (map verificationId (gateVerifications example_db))"
    using t f by (simp add: example_calls_def)
  have first: "hd (fst (verify_calls ref_lib example_db example_calls)) =
      verified_and_used ''ticket-7'' ''gv-3''"
    by code_simp
  from verify_at_most_once [OF a n fk s c, of ref_lib]
  obtain vid where r: "fst (verify_calls ref_lib example_db example_calls) =
            verified_and_used ''ticket-7'' vid #
            replicate (length example_calls - 1) error_already_redeemed_or_invalid"
    and u: "\<not> has_active (snd (verify_calls ref_lib example_db example_calls)) ''ticket-7''"
    by blast
  from r first have "vid = ''gv-3''" by simp
  with r have "fst (verify_calls ref_lib example_db example_calls) =
     [verified_and_used ''ticket-7'' ''gv-3'', error_already_redeemed_or_invalid,
      error_already_redeemed_or_invalid]"
    by (simp add: example_calls_def)
  with a fk t u show ?thesis by simp
qed

text \<open>
  Claim C2, as amended. When a verify call whose body carries a verification id has
  succeeded, a second call with the same body does not succeed again: it answers
  \<open>already_redeemed_or_invalid\<close> and leaves the store, with the ticket's \<open>usedAt\<close>,
  exactly as the first call left it.
\<close>

theorem reverify_same_verification_id:
  assumes first: "verify_POST L env d (Some body) = (verified_and_used tid vid, d1)"
    and by_id: "str_truthy (vb_verificationId body)"
  shows "verify_POST L env' d1 (Some body) = (error_already_redeemed_or_invalid, d1)"
proof -
  from first show ?thesis
  proof (cases rule: verify_POST_success_cases)
    case (by_update existing)
    have one: "str_truthy (vb_ticketId body) \<or> str_truthy (vb_verificationId body)"
      using by_id by simp
    have r: "resolved_id d1 body = Some tid"
      using by_update(3) by (simp add: by_update(8) resolved_id_after_update)
    have "\<not> has_active d1 tid"
      using markUsed_not_active [of "clock_ms env" tid d]
      by (simp add: by_update(8) has_active_def)
    then show ?thesis
      using verify_POST_not_active [OF one r by_update(4)] by simp
  next
    case (by_create ev)
    then show ?thesis using by_id by simp
  qed
qed

theorem reverify_same_verification_id_witness:
  "verify_POST ref_lib example_env example_db (Some (request_by None (Some ''gv-1''))) =
     (verified_and_used ''ticket-7'' ''gv-1'',
      gv_update (markUsed 1700000060000 ''ticket-7'' example_db) ''gv-1''
        (verified_data ref_lib example_env (request_by None (Some ''gv-1'')) example_pending)) \<and>
   str_truthy (vb_verificationId (request_by None (Some ''gv-1''))) \<and>
   verify_POST ref_lib later_env
     (gv_update (markUsed 1700000060000 ''ticket-7'' example_db) ''gv-1''
        (verified_data ref_lib example_env (request_by None (Some ''gv-1'')) example_pending))
     (Some (request_by None (Some ''gv-1''))) =
     (error_already_redeemed_or_invalid,
      gv_update (markUsed 1700000060000 ''ticket-7'' example_db) ''gv-1''
        (verified_data ref_lib example_env (request_by None (Some ''gv-1'')) example_pending))"
proof -
  have v: "str_truthy (vb_verificationId (request_by None (Some ''gv-1'')))"
    by (simp add: request_by_def str_truthy_def)
  show ?thesis
    using first_verify_example v
      reverify_same_verification_id [OF first_verify_example v, of later_env]
    by simp
qed

text \<open>
  The claim as first stated fails: after a successful call by verification id the second
  call with the same id is answered with the error, not with the success body.
\<close>

theorem reverify_counterexample:
  "fst (verify_POST ref_lib example_env example_db (Some (request_by None (Some ''gv-1'')))) =
     verified_and_used ''ticket-7'' ''gv-1'' \<and>
   map_option gv_status
     (gv_findUnique (snd (verify_POST ref_lib example_env example_db (Some (request_by None (Some ''gv-1'')))))
        ''gv-1'') = Some VERIFIED \<and>
   map_option status
     (ticket_findUnique (snd (verify_POST ref_lib example_env example_db (Some (request_by None (Some ''gv-1'')))))
        ''ticket-7'') = Some USED \<and>
   fst (verify_POST ref_lib later_env
          (snd (verify_POST ref_lib example_env example_db (Some (request_by None (Some ''gv-1'')))))
          (Some (request_by None (Some ''gv-1'')))) =
     error_already_redeemed_or_invalid"
  by code_simp

text \<open>
  Claim C3 (one atomic unit). A verify call that does not answer with success leaves the
  store as it was, so a conditional update that was followed by a failure is undone. A
  call that answers with success for a ticket and a verification id has redeemed the
  active row of that ticket, and the store holds a \<open>VERIFIED\<close> row with that
  verification id for that ticket. On a store that respects the primary keys, a verify
  call preserves the invariant: every \<open>USED\<close> ticket has a \<open>VERIFIED\<close> record and no
  \<open>VERIFIED\<close> record points to a ticket that is not \<open>USED\<close>.
\<close>

theorem verify_is_atomic:
  assumes run: "verify_POST L env d request = (response, d')"
  shows "((\<forall>tid vid. response \<noteq> verified_and_used tid vid) \<longrightarrow> d' = d) \<and>
         (\<forall>tid vid. response = verified_and_used tid vid \<longrightarrow>
            has_active d tid \<and> tickets d' = map (redeem_row (clock_ms env) tid) (tickets d) \<and>
            (\<exists>g \<in> set (gateVerifications d').
               verificationId g = vid \<and> gv_ticketId g = tid \<and> gv_status g = VERIFIED)) \<and>
         (primary_keys d \<and> consistent d \<longrightarrow> primary_keys d' \<and> consistent d')"
proof (cases "\<exists>tid vid. response = verified_and_used tid vid")
  case False
  then have "d' = d" using verify_POST_failure [OF run] by blast
  with False show ?thesis by blast
next
  case True
  then obtain tid vid where resp: "response = verified_and_used tid vid" by blast
  obtain body where body: "request = Some body"
    using run resp by (cases request) (simp_all add: verify_POST_def)
  have run': "verify_POST L env d (Some body) = (verified_and_used tid vid, d')"
    using run resp body by simp
  from run' have
    "has_active d tid \<and> tickets d' = map (redeem_row (clock_ms env) tid) (tickets d) \<and>
     (\<exists>g \<in> set (gateVerifications d').
        verificationId g = vid \<and> gv_ticketId g = tid \<and> gv_status g = VERIFIED) \<and>
     (primary_keys d \<and> consistent d \<longrightarrow> primary_keys d' \<and> consistent d')"
  proof (cases rule: verify_POST_success_cases)
    case (by_update existing)
    let ?h = "\<lambda>g. if verificationId g = vid then verified_data L env body existing g else g"
    have ex: "existing \<in> set (gateVerifications d)" "verificationId existing = vid"
      using find_Some_key [OF by_update(6) [unfolded gv_findUnique_def]] by simp_all
    have gs': "gateVerifications d' = map ?h (gateVerifications d)"
      by (simp add: by_update(8))
    have in_set: "?h existing \<in> set (map ?h (gateVerifications d))"
      using ex(1) by (rule in_set_map_update)
    have fields: "verificationId (?h existing) = vid" "gv_ticketId (?h existing) = tid"
      "gv_status (?h existing) = VERIFIED"
      using ex(2) by_update(7) by simp_all
    have "\<exists>g \<in> set (gateVerifications d').
        verificationId g = vid \<and> gv_ticketId g = tid \<and> gv_status g = VERIFIED"
      unfolding gs' using fields by (intro bexI [OF _ in_set] conjI)
    moreover
    have "tickets d' = map (redeem_row (clock_ms env) tid) (tickets d)"
      by (simp add: by_update(8) tickets_markUsed)
    moreover have "primary_keys d \<and> consistent d \<longrightarrow> primary_keys d' \<and> consistent d'"
    proof (intro impI, elim conjE)
      assume "primary_keys d" "consistent d"
      then show "primary_keys d' \<and> consistent d'"
        by (rule verify_update_preserves [OF _ _ by_update(5,6,7,8)])
    qed
    ultimately show ?thesis using by_update(5) by (intro conjI)
  next
    case (by_create ev)
    let ?row = "verified_row L env body ev tid"
    note c = gv_create_Some [OF by_create(7)]
    have in_set: "?row \<in> set (gateVerifications d')" by (simp add: c(1))
    have fields: "verificationId ?row = vid" "gv_ticketId ?row = tid" "gv_status ?row = VERIFIED"
      using by_create(2) by simp_all
    have "\<exists>g \<in> set (gateVerifications d').
        verificationId g = vid \<and> gv_ticketId g = tid \<and> gv_status g = VERIFIED"
      using fields by (intro bexI [OF _ in_set] conjI)
    moreover
    have "tickets d' = map (redeem_row (clock_ms env) tid) (tickets d)"
      by (simp add: c(1) tickets_markUsed)
    moreover have "primary_keys d \<and> consistent d \<longrightarrow> primary_keys d' \<and> consistent d'"
    proof (intro impI, elim conjE)
      assume "primary_keys d" "consistent d"
      then show "primary_keys d' \<and> consistent d'"
        by (rule verify_create_preserves [OF _ _ by_create(5,7)])
    qed
    ultimately show ?thesis using by_create(5) by (intro conjI)
  qed
  then show ?thesis using resp by simp
qed

theorem verify_is_atomic_witness:
  "primary_keys example_db \<and> consistent example_db \<and>
   verify_POST ref_lib example_env example_db (Some (request_by None (Some ''gv-1''))) =
     (verified_and_used ''ticket-7'' ''gv-1'',
      gv_update (markUsed 1700000060000 ''ticket-7'' example_db) ''gv-1''
        (verified_data ref_lib example_env (request_by None (Some ''gv-1'')) example_pending)) \<and>
   primary_keys (gv_update (markUsed 1700000060000 ''ticket-7'' example_db) ''gv-1''
        (verified_data ref_lib example_env (request_by None (Some ''gv-1'')) example_pending)) \<and>
   consistent (gv_update (markUsed 1700000060000 ''ticket-7'' example_db) ''gv-1''
        (verified_data ref_lib example_env (request_by None (Some ''gv-1'')) example_pending)) \<and>
   verify_POST ref_lib example_env example_db (Some (request_by (Some ''ticket-7'') (Some ''gv-2''))) =
     (error_verification_ticket_mismatch, example_db)"
proof -
  have rollback: "verify_POST ref_lib example_env example_db
      (Some (request_by (Some ''ticket-7'') (Some ''gv-2''))) =
     (error_verification_ticket_mismatch, example_db)"
    by code_simp
  show ?thesis
    using verify_is_atomic [OF first_verify_example] verify_is_atomic [OF rollback]
      example_db_consistent first_verify_example rollback
    by simp
qed

text \<open>
  Claim C8, as amended. For a body with a ticket id or a verification id, the handler
  fails in this order. (1) With no ticket id, the verification row named by the body is
  looked up, and its absence is \<open>verification_record_not_found\<close>; an empty resolved id
  is \<open>could_not_resolve_ticket_id\<close>. (2) The conditional update is attempted; when no
  row of the resolved ticket is \<open>ACTIVE\<close>, also when the ticket does not exist, the
  answer is \<open>already_redeemed_or_invalid\<close>. (3) Only then, when the body names a
  verification row, its absence is \<open>verification_record_not_found\<close> and a row of
  another ticket is \<open>verification_ticket_mismatch\<close>, and the update is undone. (4)
  Otherwise the row is set to \<open>VERIFIED\<close>, or a new \<open>VERIFIED\<close> row is inserted when the
  body names none, and the answer carries the ticket id and the verification id.
\<close>

theorem verify_order_of_checks:
  assumes one: "str_truthy (vb_ticketId body) \<or> str_truthy (vb_verificationId body)"
  shows
   "(resolved_id d body = None \<longrightarrow>
       verify_POST L env d (Some body) = (error_verification_record_not_found, d)) \<and>
    (resolved_id d body = Some [] \<longrightarrow>
       verify_POST L env d (Some body) = (error_could_not_resolve_ticket_id, d)) \<and>
    (resolved_id d body = Some tid \<and> tid \<noteq> [] \<and> \<not> has_active d tid \<longrightarrow>
       verify_POST L env d (Some body) = (error_already_redeemed_or_invalid, d)) \<and>
    (resolved_id d body = Some tid \<and> tid \<noteq> [] \<and> has_active d tid \<and>
     str_truthy (vb_verificationId body) \<and>
     gv_findUnique d (the (vb_verificationId body)) = None \<longrightarrow>
       verify_POST L env d (Some body) = (error_verification_record_not_found, d)) \<and>
    (resolved_id d body = Some tid \<and> tid \<noteq> [] \<and> has_active d tid \<and>
     str_truthy (vb_verificationId body) \<and>
     gv_findUnique d (the (vb_verificationId body)) = Some existing \<and> gv_ticketId existing \<noteq> tid \<longrightarrow>
       verify_POST L env d (Some body) = (error_verification_ticket_mismatch, d)) \<and>
    (resolved_id d body = Some tid \<and> tid \<noteq> [] \<and> has_active d tid \<and>
     str_truthy (vb_verificationId body) \<and>
     gv_findUnique d (the (vb_verificationId body)) = Some existing \<and> gv_ticketId existing = tid \<longrightarrow>
       verify_POST L env d (Some body) =
         (verified_and_used tid (the (vb_verificationId body)),
          gv_update (markUsed (clock_ms env) tid d) (the (vb_verificationId body))
            (verified_data L env body existing))) \<and>
    (resolved_id d body = Some tid \<and> tid \<noteq> [] \<and> has_active d tid \<and>
     \<not> str_truthy (vb_verificationId body) \<and>
     new_id env \<notin> set (map verificationId (gateVerifications d)) \<and> foreign_keys d \<longrightarrow>
       (\<exists>ev. verify_POST L env d (Some body) =
         (verified_and_used tid (new_id env),
          (markUsed (clock_ms env) tid d)
            \<lparr>gateVerifications := gateVerifications d @ [verified_row L env body ev tid]\<rparr>)))"
proof (intro conjI impI)
  assume "resolved_id d body = None"
  then show "verify_POST L env d (Some body) = (error_verification_record_not_found, d)"
    by (rule verify_POST_unresolved [OF one])
next
  assume r: "resolved_id d body = Some []"
  show "verify_POST L env d (Some body) = (error_could_not_resolve_ticket_id, d)"
    by (simp add: verify_POST_body [OF one] verify_tx_resolved [OF one r])
next
  assume "resolved_id d body = Some tid \<and> tid \<noteq> [] \<and> \<not> has_active d tid"
  then show "verify_POST L env d (Some body) = (error_already_redeemed_or_invalid, d)"
    using verify_POST_not_active [OF one] by blast
next
  assume "resolved_id d body = Some tid \<and> tid \<noteq> [] \<and> has_active d tid \<and>
     str_truthy (vb_verificationId body) \<and>
     gv_findUnique d (the (vb_verificationId body)) = None"
  then show "verify_POST L env d (Some body) = (error_verification_record_not_found, d)"
    using verify_POST_missing_record [OF one] by blast
next
  assume a: "resolved_id d body = Some tid \<and> tid \<noteq> [] \<and> has_active d tid \<and>
     str_truthy (vb_verificationId body) \<and>
     gv_findUnique d (the (vb_verificationId body)) = Some existing \<and> gv_ticketId existing \<noteq> tid"
  then have "verify_POST L env d (Some body) =
     (if gv_ticketId existing \<noteq> tid then (error_verification_ticket_mismatch, d)
      else (verified_and_used tid (the (vb_verificationId body)),
            gv_update (markUsed (clock_ms env) tid d) (the (vb_verificationId body))
              (verified_data L env body existing)))"
    using verify_POST_update [OF one] by blast
  with a show "verify_POST L env d (Some body) = (error_verification_ticket_mismatch, d)"
    by simp
next
  assume a: "resolved_id d body = Some tid \<and> tid \<noteq> [] \<and> has_active d tid \<and>
     str_truthy (vb_verificationId body) \<and>
     gv_findUnique d (the (vb_verificationId body)) = Some existing \<and> gv_ticketId existing = tid"
  then have "verify_POST L env d (Some body) =
     (if gv_ticketId existing \<noteq> tid then (error_verification_ticket_mismatch, d)
      else (verified_and_used tid (the (vb_verificationId body)),
            gv_update (markUsed (clock_ms env) tid d) (the (vb_verificationId body))
              (verified_data L env body existing)))"
    using verify_POST_update [OF one] by blast
  with a show "verify_POST L env d (Some body) =
         (verified_and_used tid (the (vb_verificationId body)),
          gv_update (markUsed (clock_ms env) tid d) (the (vb_verificationId body))
            (verified_data L env body existing))"
    by simp
next
  assume a: "resolved_id d body = Some tid \<and> tid \<noteq> [] \<and> has_active d tid \<and>
     \<not> str_truthy (vb_verificationId body) \<and>
     new_id env \<notin> set (map verificationId (gateVerifications d)) \<and> foreign_keys d"
  then obtain ev where "verify_POST L env d (Some body) =
       (verified_and_used tid (new_id env),
        (markUsed (clock_ms env) tid d)
          \<lparr>gateVerifications := gateVerifications d @ [verified_row L env body ev tid]\<rparr>)"
    using verify_POST_create_ok [OF one, of d tid env L] by blast
  then show "\<exists>ev. verify_POST L env d (Some body) =
         (verified_and_used tid (new_id env),
          (markUsed (clock_ms env) tid d)
            \<lparr>gateVerifications := gateVerifications d @ [verified_row L env body ev tid]\<rparr>)"
    by blast
qed

theorem verify_order_of_checks_witness:
  "verify_POST ref_lib example_env example_db (Some (request_by (Some ''ticket-0'') None)) =
     (error_already_redeemed_or_invalid, example_db) \<and>
   verify_POST ref_lib example_env example_db (Some (request_by (Some ''ticket-7'') (Some ''gv-2''))) =
     (error_verification_ticket_mismatch, example_db) \<and>
   verify_POST ref_lib example_env example_db (Some (request_by None (Some ''gv-0''))) =
     (error_verification_record_not_found, example_db)"
proof -
  have 1: "str_truthy (vb_ticketId (request_by (Some ''ticket-0'') None)) \<or>
           str_truthy (vb_verificationId (request_by (Some ''ticket-0'') None))"
    "resolved_id example_db (request_by (Some ''ticket-0'') None) = Some ''ticket-0''"
    "\<not> has_active example_db ''ticket-0''"
    by code_simp+
  have 2: "str_truthy (vb_ticketId (request_by (Some ''ticket-7'') (Some ''gv-2''))) \<or>
           str_truthy (vb_verificationId (request_by (Some ''ticket-7'') (Some ''gv-2'')))"
    "resolved_id example_db (request_by (Some ''ticket-7'') (Some ''gv-2'')) = Some ''ticket-7''"
    "has_active example_db ''ticket-7''"
    "str_truthy (vb_verificationId (request_by (Some ''ticket-7'') (Some ''gv-2'')))"
    "gv_findUnique example_db (the (vb_verificationId (request_by (Some ''ticket-7'') (Some ''gv-2'')))) =
       Some example_verified"
    "gv_ticketId example_verified \<noteq> ''ticket-7''"
    by code_simp+
  have 3: "str_truthy (vb_ticketId (request_by None (Some ''gv-0''))) \<or>
           str_truthy (vb_verificationId (request_by None (Some ''gv-0'')))"
    "resolved_id example_db (request_by None (Some ''gv-0'')) = None"
    by code_simp+
  show ?thesis
    using verify_order_of_checks [OF 1(1), where d = example_db and tid = "''ticket-0''"
            and L = ref_lib and env = example_env] 1
      verify_order_of_checks [OF 2(1), where d = example_db and tid = "''ticket-7''"
            and existing = example_verified and L = ref_lib and env = example_env] 2
      verify_order_of_checks [OF 3(1), where d = example_db and L = ref_lib and env = example_env] 3
    by simp
qed

text \<open>
  The claim as first stated fails twice. A call for a ticket that does not exist is
  answered \<open>already_redeemed_or_invalid\<close>; the handler has no answer of its own for a
  missing ticket. A call that names a redeemed ticket and the verification row of another
  ticket is answered \<open>already_redeemed_or_invalid\<close> as well: the mismatch is examined
  after the redemption attempt, not before it.
\<close>

theorem verify_order_counterexample:
  "ticket_findUnique example_db ''ticket-0'' = None \<and>
   verify_POST ref_lib example_env example_db (Some (request_by (Some ''ticket-0'') None)) =
     (error_already_redeemed_or_invalid, example_db) \<and>
   map_option gv_ticketId (gv_findUnique example_db ''gv-1'') = Some ''ticket-7'' \<and>
   verify_POST ref_lib example_env example_db (Some (request_by (Some ''ticket-8'') (Some ''gv-1''))) =
     (error_already_redeemed_or_invalid, example_db)"
  by code_simp

end
